theory Spec2Isabelle
  imports Main
begin

section \<open>npm-publish-action: a model of \<open>src/index.js\<close>\<close>

text \<open>
  The script reads its configuration from the process environment, reads the event
  document and the package document, runs \<open>git\<close> and the publish command as child
  processes, and reports through lines on standard output and the process exit code.

  Modelling conventions.
  \<^item> A string is the list of the bytes of its UTF-8 encoding; only well-formed text is
    considered.
  \<^item> The event document is typed as the script reads it: an owner with \<open>name\<close> and
    \<open>email\<close>, and a list of commits with a \<open>message\<close> and an optional \<open>sha\<close>
    (\<open>None\<close> is JavaScript's \<open>undefined\<close>). Documents of another shape are outside
    the model.
  \<^item> The built-in services of the runtime that the script calls but does not define
    (the regular-expression engine, \<open>path.join\<close>, reading and parsing a file, spawning a
    child process) are the fields of a \<open>platform\<close> record, a parameter of every function
    that uses them.
  \<^item> A rejected promise or a thrown exception is the \<open>Inl\<close> of a sum; every
    asynchronous function takes the run's state and returns the new one.
\<close>

subsection \<open>Errors\<close>

text \<open>
  \<open>class ExitError extends Error\<close> carries the exit code (\<open>None\<close> is \<open>null\<close>: the
  child was ended by a signal); \<open>class NeutralExitError extends Error\<close>; every other
  exception is an \<open>Error\<close> of which only the message matters.
\<close>

datatype error = Error string | ExitError "int option" | NeutralExitError string

fun show_nat :: "nat \<Rightarrow> string" where
  "show_nat n =
     (if n < 10 then [''0123456789'' ! n]
      else show_nat (n div 10) @ [''0123456789'' ! (n mod 10)])"

declare show_nat.simps [simp del]

definition show_code :: "int option \<Rightarrow> string" where
  "show_code code =
     (case code of
        None \<Rightarrow> ''null''
      | Some c \<Rightarrow> (if c < 0 then ''-'' @ show_nat (nat (- c)) else show_nat (nat c)))"

text \<open>\<open>e.message\<close>: \<open>ExitError\<close> calls \<open>super(`command failed with code ${code}`)\<close>.\<close>

fun message_of :: "error \<Rightarrow> string" where
  "message_of (Error m) = m"
| "message_of (ExitError code) = ''command failed with code '' @ show_code code"
| "message_of (NeutralExitError m) = m"

text \<open>\<open>e instanceof NeutralExitError\<close>.\<close>

fun isNeutralExitError :: "error \<Rightarrow> bool" where
  "isNeutralExitError (NeutralExitError m) = True"
| "isNeutralExitError e = False"

subsection \<open>Strings\<close>

text \<open>\<open>args.join(" ")\<close>.\<close>

fun join_space :: "string list \<Rightarrow> string" where
  "join_space [] = []"
| "join_space [t] = t"
| "join_space (t # u # ts) = t @ CHR '' '' # join_space (u # ts)"

text \<open>\<open>str.split(" ")\<close>: a new field starts after every space.\<close>

fun split_space :: "string \<Rightarrow> string list" where
  "split_space [] = [[]]"
| "split_space (c # cs) =
     (if c = CHR '' '' then [] # split_space cs
      else (case split_space cs of
              t # ts \<Rightarrow> (c # t) # ts
            | [] \<Rightarrow> [[c]]))"

text \<open>\<open>str.includes(sub)\<close>.\<close>

fun includes_str :: "string \<Rightarrow> string \<Rightarrow> bool" where
  "includes_str [] sub = (sub = [])"
| "includes_str (c # cs) sub = (take (length sub) (c # cs) = sub \<or> includes_str cs sub)"

text \<open>
  \<open>GetSubstitution\<close> of the language standard, for a pattern without capture groups:
  in the replacement text \<open>$$\<close> stands for a dollar sign, \<open>$&\<close> for the matched text,
  \<open>$`\<close> (\<open>0x60\<close>) for the text before the match, \<open>$'\<close> (\<open>0x27\<close>) for the text after
  it; any other dollar sign stands for itself.
\<close>

fun getSubstitution :: "string \<Rightarrow> string \<Rightarrow> string \<Rightarrow> string \<Rightarrow> string" where
  "getSubstitution matched preceding following [] = []"
| "getSubstitution matched preceding following [c] = [c]"
| "getSubstitution matched preceding following (c # d # r) =
     (if c = CHR ''$'' then
        (if d = CHR ''$'' then CHR ''$'' # getSubstitution matched preceding following r
         else if d = CHR ''&'' then matched @ getSubstitution matched preceding following r
         else if d = CHR 0x60 then preceding @ getSubstitution matched preceding following r
         else if d = CHR 0x27 then following @ getSubstitution matched preceding following r
         else c # getSubstitution matched preceding following (d # r))
      else c # getSubstitution matched preceding following (d # r))"

text \<open>
  \<open>str.replace(/%s/g, replacement)\<close>: the matches of \<open>%s\<close> are found from left to
  right in \<open>str\<close>; \<open>preceding\<close> is the part of \<open>str\<close> already passed.
\<close>

fun replace_from :: "string \<Rightarrow> string \<Rightarrow> string \<Rightarrow> string" where
  "replace_from preceding [] replacement = []"
| "replace_from preceding [c] replacement = [c]"
| "replace_from preceding (c # d # r) replacement =
     (if c = CHR ''%'' \<and> d = CHR ''s''
      then getSubstitution ''%s'' preceding r replacement
             @ replace_from (preceding @ ''%s'') r replacement
      else c # replace_from (preceding @ [c]) (d # r) replacement)"

definition replace_placeholder :: "string \<Rightarrow> string \<Rightarrow> string" where
  "replace_placeholder str replacement = replace_from [] str replacement"

text \<open>
  The substitution as the specification words it: every occurrence of the placeholder
  in the template is replaced by the version string.
\<close>

fun spec_substitute :: "string \<Rightarrow> string \<Rightarrow> string" where
  "spec_substitute [] v = []"
| "spec_substitute [c] v = [c]"
| "spec_substitute (c # d # r) v =
     (if c = CHR ''%'' \<and> d = CHR ''s'' then v @ spec_substitute r v
      else c # spec_substitute (d # r) v)"

text \<open>
  \<open>encodeURIComponent\<close>: the letters, the digits and \<open>- _ . ! ~ * ' ( )\<close> stand for
  themselves, every other byte is written \<open>%XX\<close> with upper-case hexadecimal digits.
\<close>

definition hexDigit :: "nat \<Rightarrow> char" where
  "hexDigit n = ''0123456789ABCDEF'' ! (n mod 16)"

definition uriUnreserved :: "char \<Rightarrow> bool" where
  "uriUnreserved c =
     (c \<in> set ''ABCDEFGHIJKLMNOPQRSTUVWXYZabcdefghijklmnopqrstuvwxyz0123456789-_.!~*()''
      \<or> c = CHR 0x27)"

definition encodeURIComponent :: "string \<Rightarrow> string" where
  "encodeURIComponent s =
     concat (map (\<lambda>c. if uriUnreserved c then [c]
                       else [CHR ''%'', hexDigit (of_char c div 16), hexDigit (of_char c mod 16)]) s)"

subsection \<open>The environment\<close>

text \<open>A value is truthy when it is defined and not the empty string.\<close>

fun truthy :: "string option \<Rightarrow> bool" where
  "truthy None = False"
| "truthy (Some s) = (s \<noteq> [])"

text \<open>\<open>a || b\<close> on values that may be undefined, and \<open>a || "literal"\<close>.\<close>

definition or_undef :: "string option \<Rightarrow> string option \<Rightarrow> string option" where
  "or_undef a b = (if truthy a then a else b)"

definition or_default :: "string option \<Rightarrow> string \<Rightarrow> string" where
  "or_default a d = (case a of None \<Rightarrow> d | Some s \<Rightarrow> (if s \<noteq> [] then s else d))"

definition getEnv :: "(string \<Rightarrow> string option) \<Rightarrow> string \<Rightarrow> string option" where
  "getEnv env name = or_undef (env name) (env (''INPUT_'' @ name))"

definition placeholderEnv ::
  "(string \<Rightarrow> string option) \<Rightarrow> string \<Rightarrow> string \<Rightarrow> error + string" where
  "placeholderEnv env name defaultValue =
     (case getEnv env name of
        None \<Rightarrow> Inr defaultValue
      | Some str \<Rightarrow>
          if str = [] then Inr defaultValue
          else if \<not> includes_str str ''%s''
            then Inl (Error (''missing placeholder in variable: '' @ name))
          else Inr str)"

definition arrayEnv :: "(string \<Rightarrow> string option) \<Rightarrow> string \<Rightarrow> string list" where
  "arrayEnv env name =
     (case getEnv env name of
        None \<Rightarrow> []
      | Some str \<Rightarrow> (if str = [] then [] else split_space str))"

text \<open>Line 19: \<open>getEnv("CREATE_TAG") !== "false"\<close>.\<close>

definition createTagFlag_of :: "(string \<Rightarrow> string option) \<Rightarrow> bool" where
  "createTagFlag_of env = (getEnv env ''CREATE_TAG'' \<noteq> Some ''false'')"

subsection \<open>Data\<close>

record author =
  name :: string
  email :: string

record commit =
  message :: string
  sha :: "string option"

text \<open>The event document: \<open>eventObj.repository.owner\<close> and \<open>eventObj.commits\<close>.\<close>

record event =
  repository_owner :: author
  event_commits :: "commit list"

text \<open>
  The package document as the script looks at it: \<open>null\<close>, or a value whose
  \<open>version\<close> property is a string or is missing (\<open>None\<close>).
\<close>

datatype package_json = PackageNull | PackageObj "string option"

record config =
  commitPattern :: string
  createTagFlag :: bool
  tagName :: string
  tagMessage :: string
  tagAuthor :: author
  publishCommand :: string
  publishArgs :: "string list"

subsection \<open>The platform and the state of a run\<close>

text \<open>
  What a child process does: it exits with a code (\<open>None\<close> when a signal ended it),
  leaving the given text on standard error (already trimmed), or it cannot be started.
\<close>

datatype proc_event = Exited "int option" string | SpawnError

text \<open>
  \<^item> \<open>regexp pattern\<close> compiles a pattern: \<open>Inl\<close> is the message of the syntax error,
    \<open>Inr exec\<close> the matcher; \<open>exec str\<close> is \<open>None\<close> when \<open>str\<close> does not match and
    otherwise the match array (the matched text, then one entry per capture group,
    \<open>None\<close> for a group that took no part).
  \<^item> \<open>path_join\<close> is \<open>join\<close> of the \<open>path\<close> module.
  \<^item> \<open>readEventJson\<close> and \<open>readPackageJson\<close> read and parse a file: \<open>Inl\<close> is the
    message of the failure (the file cannot be read, or it is not JSON).
  \<^item> \<open>spawn world cwd argv\<close> runs a child process to its end in the world \<open>world\<close>
    and gives what happened and the world after it.
\<close>

record 'w platform =
  regexp :: "string \<Rightarrow> string + (string \<Rightarrow> string option list option)"
  path_join :: "string \<Rightarrow> string \<Rightarrow> string"
  readEventJson :: "string \<Rightarrow> string + event"
  readPackageJson :: "string \<Rightarrow> string + package_json"
  spawn :: "'w \<Rightarrow> string \<Rightarrow> string list \<Rightarrow> proc_event \<times> 'w"

text \<open>What \<open>console.log\<close> is given: a line of text, or a value that it prints.\<close>

datatype log_entry =
    LogStr string
  | LogEvent event
  | LogCommits "commit list"
  | LogError error

text \<open>
  The state of a run: the world outside, the child processes run so far (directory and
  command line), the files read so far, the console, and \<open>process.exitCode\<close>.
\<close>

record 'w state =
  world :: 'w
  executed :: "(string \<times> string list) list"
  filesRead :: "string list"
  console :: "log_entry list"
  exitCode :: "int option"

definition init_state :: "'w \<Rightarrow> 'w state" where
  "init_state w = \<lparr>world = w, executed = [], filesRead = [], console = [], exitCode = None\<rparr>"

text \<open>The exit status of the process: 0 unless \<open>process.exitCode\<close> was set.\<close>

definition exit_status :: "'w state \<Rightarrow> int" where
  "exit_status st = (case exitCode st of None \<Rightarrow> 0 | Some c \<Rightarrow> c)"

definition console_log :: "log_entry \<Rightarrow> 'w state \<Rightarrow> 'w state" where
  "console_log entry st = st\<lparr>console := console st @ [entry]\<rparr>"

text \<open>Sequencing of asynchronous steps: \<open>await\<close> passes a rejection on.\<close>

definition and_then ::
  "('s \<Rightarrow> (error + 'a) \<times> 's) \<Rightarrow> ('a \<Rightarrow> 's \<Rightarrow> (error + 'b) \<times> 's) \<Rightarrow> 's \<Rightarrow> (error + 'b) \<times> 's" where
  "and_then m f st = (case m st of (Inl e, st') \<Rightarrow> (Inl e, st') | (Inr a, st') \<Rightarrow> f a st')"

subsection \<open>setOutput and run\<close>

text \<open>\<open>function setOutput(name, value = "")\<close>: an undefined value is the empty string.\<close>

definition setOutput_line :: "string \<Rightarrow> string option \<Rightarrow> string" where
  "setOutput_line nm val =
     ''::set-output name='' @ encodeURIComponent nm @ ''::''
       @ encodeURIComponent (case val of None \<Rightarrow> [] | Some v \<Rightarrow> v)"

definition setOutput :: "string \<Rightarrow> string option \<Rightarrow> 'w state \<Rightarrow> 'w state" where
  "setOutput nm val st = console_log (LogStr (setOutput_line nm val)) st"

definition run ::
  "'w platform \<Rightarrow> string \<Rightarrow> string \<Rightarrow> string list \<Rightarrow> 'w state \<Rightarrow> (error + bool) \<times> 'w state" where
  "run P cwd command args st =
     (let st1 = console_log (LogStr (''Executing: '' @ command @ '' '' @ join_space args)) st;
          (ev, w') = spawn P (world st1) cwd (command # args);
          st2 = st1\<lparr>world := w', executed := executed st1 @ [(cwd, command # args)]\<rparr>
      in case ev of
           SpawnError \<Rightarrow> (Inl (Error (''command failed: '' @ command)), st2)
         | Exited code stderr \<Rightarrow>
             if code = Some 0 then (Inr True, st2)
             else (Inl (ExitError code),
                   if stderr \<noteq> []
                   then console_log (LogStr stderr)
                          (console_log (LogStr (''command failed with code '' @ show_code code)) st2)
                   else st2))"

subsection \<open>checkCommit\<close>

text \<open>\<open>match[1]\<close>, undefined when the array has no such entry.\<close>

definition match_group1 :: "string option list \<Rightarrow> string option" where
  "match_group1 m = (case m of _ # g # _ \<Rightarrow> g | _ \<Rightarrow> None)"

text \<open>
  The loop over the commits. \<open>commit.message.match(config.commitPattern)\<close> compiles
  the pattern at every call, so a syntax error is thrown at the first commit.
\<close>

fun checkCommit_loop ::
  "'w platform \<Rightarrow> config \<Rightarrow> commit list \<Rightarrow> string \<Rightarrow> 'w state \<Rightarrow> (error + commit) \<times> 'w state" where
  "checkCommit_loop P config [] version st =
     (Inl (NeutralExitError (''No commit found for version: '' @ version)), st)"
| "checkCommit_loop P config (c # rest) version st =
     (case regexp P (commitPattern config) of
        Inl msg \<Rightarrow> (Inl (Error msg), st)
      | Inr exec \<Rightarrow>
          (case exec (message c) of
             None \<Rightarrow> checkCommit_loop P config rest version st
           | Some m \<Rightarrow>
               if match_group1 m = Some version
               then (Inr c, console_log (LogStr (''Found commit: '' @ message c)) st)
               else checkCommit_loop P config rest version st))"

definition checkCommit ::
  "'w platform \<Rightarrow> config \<Rightarrow> commit list \<Rightarrow> string \<Rightarrow> 'w state \<Rightarrow> (error + commit) \<times> 'w state" where
  "checkCommit P config commits version st =
     checkCommit_loop P config commits version (console_log (LogCommits commits) st)"

subsection \<open>createTag\<close>

text \<open>
  The handler of the probe:
  \<open>e instanceof ExitError && e.code === 1 ? false : Promise.reject(e)\<close>.
\<close>

fun probe_catch :: "error \<Rightarrow> error + bool" where
  "probe_catch (ExitError code) = (if code = Some 1 then Inr False else Inl (ExitError code))"
| "probe_catch e = Inl e"

text \<open>
  The probe, lines 128 to 137: \<open>run(dir, "git", "rev-parse", "-q", "--verify",
  `refs/tags/${tagName}`)\<close> with the handler above as its \<open>catch\<close>.
\<close>

definition tag_probe ::
  "'w platform \<Rightarrow> string \<Rightarrow> string \<Rightarrow> 'w state \<Rightarrow> (error + bool) \<times> 'w state" where
  "tag_probe P dir tag st =
     (case run P dir ''git'' [''rev-parse'', ''-q'', ''--verify'', ''refs/tags/'' @ tag] st of
        (Inl e, st') \<Rightarrow> (probe_catch e, st')
      | (Inr b, st') \<Rightarrow> (Inr b, st'))"

definition createTag ::
  "'w platform \<Rightarrow> string \<Rightarrow> config \<Rightarrow> string \<Rightarrow> 'w state \<Rightarrow> (error + unit) \<times> 'w state" where
  "createTag P dir config version =
     (let tag = replace_placeholder (tagName config) version;
          msg = replace_placeholder (tagMessage config) version
      in and_then (tag_probe P dir tag) (\<lambda>tagExists.
           if tagExists
           then (\<lambda>st. (Inl (NeutralExitError []),
                        console_log (LogStr (''Tag already exists: '' @ tag)) st))
           else
             and_then (run P dir ''git'' [''config'', ''user.name'', name (tagAuthor config)]) (\<lambda>_.
             and_then (run P dir ''git'' [''config'', ''user.email'', email (tagAuthor config)]) (\<lambda>_.
             and_then (run P dir ''git'' [''tag'', ''-a'', ''-m'', msg, tag]) (\<lambda>_.
             and_then (run P dir ''git'' [''push'', ''origin'', ''refs/tags/'' @ tag]) (\<lambda>_.
             (\<lambda>st. (Inr (),
                     console_log (LogStr (''Tag has been created successfully: '' @ tag)) st))))))))"

subsection \<open>publishPackage\<close>

text \<open>The command line \<open>[...cmd, ...publishArgs]\<close>.\<close>

definition publish_argv :: "config \<Rightarrow> string \<Rightarrow> string list" where
  "publish_argv config version =
     (if publishCommand config = ''yarn''
        then [''yarn'', ''publish'', ''--non-interactive'', ''--new-version'', version]
      else if publishCommand config = ''npm''
        then [''npm'', ''publish'']
      else [publishCommand config])
     @ publishArgs config"

definition publishPackage ::
  "'w platform \<Rightarrow> string \<Rightarrow> config \<Rightarrow> string \<Rightarrow> 'w state \<Rightarrow> (error + unit) \<times> 'w state" where
  "publishPackage P dir config version =
     and_then (run P dir (hd (publish_argv config version)) (tl (publish_argv config version))) (\<lambda>_.
       (\<lambda>st. (Inr (),
               console_log (LogStr (''Version has been published successfully: '' @ version)) st)))"

subsection \<open>processDirectory\<close>

definition safe_directory_args :: "string list" where
  "safe_directory_args = [''config'', ''--global'', ''--add'', ''safe.directory'', ''/github/workspace'']"

text \<open>The steps of \<open>processDirectory\<close> once the version is known.\<close>

definition release ::
  "'w platform \<Rightarrow> string \<Rightarrow> config \<Rightarrow> commit list \<Rightarrow> string \<Rightarrow> 'w state \<Rightarrow> (error + unit) \<times> 'w state" where
  "release P dir config commits version =
     and_then (run P dir ''git'' safe_directory_args) (\<lambda>_.
     and_then (checkCommit P config commits version) (\<lambda>foundCommit.
     and_then (if createTagFlag config then createTag P dir config version
               else (\<lambda>st. (Inr (), st))) (\<lambda>_.
     and_then (publishPackage P dir config version) (\<lambda>_.
     (\<lambda>st. (Inr (),
             console_log (LogStr ''Done.'')
               (setOutput ''commit'' (sha foundCommit)
                 (setOutput ''version'' (Some version)
                   (setOutput ''changed'' (Some ''true'') st)))))))))"

definition processDirectory ::
  "'w platform \<Rightarrow> string \<Rightarrow> config \<Rightarrow> commit list \<Rightarrow> 'w state \<Rightarrow> (error + unit) \<times> 'w state" where
  "processDirectory P dir config commits st =
     (let packageFile = path_join P dir ''package.json'';
          st1 = st\<lparr>filesRead := filesRead st @ [packageFile]\<rparr>
      in case readPackageJson P packageFile of
           Inl _ \<Rightarrow> (Inl (NeutralExitError (''package file not found: '' @ packageFile)), st1)
         | Inr PackageNull \<Rightarrow> (Inl (Error ''missing version field!''), st1)
         | Inr (PackageObj None) \<Rightarrow> (Inl (Error ''missing version field!''), st1)
         | Inr (PackageObj (Some version)) \<Rightarrow> release P dir config commits version st1)"

subsection \<open>main and the top level of the script\<close>

definition workspace_dir :: "(string \<Rightarrow> string option) \<Rightarrow> string" where
  "workspace_dir env =
     or_default (or_undef (getEnv env ''WORKSPACE'') (env ''GITHUB_WORKSPACE'')) ''/github/workspace''"

definition event_file :: "(string \<Rightarrow> string option) \<Rightarrow> string" where
  "event_file env = or_default (env ''GITHUB_EVENT_PATH'') ''/github/workflow/event.json''"

text \<open>The default pattern, \<open>^(?:Release|Version) (\S+)\<close> with a backslash (\<open>0x5C\<close>).\<close>

definition default_commitPattern :: string where
  "default_commitPattern = ''^(?:Release|Version) ('' @ [CHR 0x5C] @ ''S+)''"

text \<open>
  The object literal \<open>config\<close> of \<open>main\<close>; \<open>placeholderEnv\<close> may throw, first for
  \<open>TAG_NAME\<close>, then for \<open>TAG_MESSAGE\<close>.
\<close>

definition build_config :: "(string \<Rightarrow> string option) \<Rightarrow> event \<Rightarrow> error + config" where
  "build_config env eventObj =
     (case placeholderEnv env ''TAG_NAME'' ''v%s'' of
        Inl e \<Rightarrow> Inl e
      | Inr tn \<Rightarrow>
         (case placeholderEnv env ''TAG_MESSAGE'' ''v%s'' of
            Inl e \<Rightarrow> Inl e
          | Inr tm \<Rightarrow>
             Inr \<lparr>commitPattern = or_default (getEnv env ''COMMIT_PATTERN'') default_commitPattern,
                  createTagFlag = createTagFlag_of env,
                  tagName = tn,
                  tagMessage = tm,
                  tagAuthor = repository_owner eventObj,
                  publishCommand = or_default (getEnv env ''PUBLISH_COMMAND'') ''yarn'',
                  publishArgs = arrayEnv env ''PUBLISH_ARGS''\<rparr>))"

definition main ::
  "'w platform \<Rightarrow> (string \<Rightarrow> string option) \<Rightarrow> 'w state \<Rightarrow> (error + unit) \<times> 'w state" where
  "main P env st =
     (let dir = workspace_dir env;
          eventFile = event_file env;
          st1 = st\<lparr>filesRead := filesRead st @ [eventFile]\<rparr>
      in case readEventJson P eventFile of
           Inl msg \<Rightarrow> (Inl (Error msg), st1)
         | Inr eventObj \<Rightarrow>
            (case build_config env eventObj of
               Inl e \<Rightarrow> (Inl e, st1)
             | Inr config \<Rightarrow>
                processDirectory P dir config (event_commits eventObj)
                  (console_log (LogEvent eventObj) st1)))"

text \<open>
  The top level: \<open>main().catch(e => ...)\<close>. \<open>console.log(e.message || e)\<close> prints the
  error itself when its message is empty.
\<close>

definition script :: "'w platform \<Rightarrow> (string \<Rightarrow> string option) \<Rightarrow> 'w \<Rightarrow> 'w state" where
  "script P env w =
     (case main P env (init_state w) of
        (Inr _, st) \<Rightarrow> st
      | (Inl e, st) \<Rightarrow>
          (let st1 = setOutput ''changed'' (Some ''false'') st
           in if isNeutralExitError e then st1\<lparr>exitCode := Some 0\<rparr>
              else console_log (if message_of e \<noteq> [] then LogStr (message_of e) else LogError e)
                     (st1\<lparr>exitCode := Some 1\<rparr>)))"

subsection \<open>A test platform\<close>

text \<open>
  A small platform on which the runs of the scenarios are evaluated. Its world is the
  list of the refs of the repository; \<open>git rev-parse\<close> exits with 0 for a ref of the
  list and with 1 for any other, \<open>git tag\<close> adds the ref, every other command
  succeeds. Its regular-expression engine knows the default pattern only:
  \<open>default_exec\<close> matches \<open>Release\<close> or \<open>Version\<close>, a space, and the longest run of
  characters that are not white space (at least one).
\<close>

definition is_space :: "char \<Rightarrow> bool" where
  "is_space c = (c \<in> set [CHR '' '', CHR 0x09, CHR 0x0A, CHR 0x0B, CHR 0x0C, CHR 0x0D])"

definition default_exec :: "string \<Rightarrow> string option list option" where
  "default_exec str =
     (if take 8 str = ''Release '' \<or> take 8 str = ''Version '' then
        (let g = takeWhile (\<lambda>c. \<not> is_space c) (drop 8 str)
         in if g = [] then None else Some [Some (take 8 str @ g), Some g])
      else None)"

definition test_regexp :: "string \<Rightarrow> string + (string \<Rightarrow> string option list option)" where
  "test_regexp pattern =
     (if pattern = default_commitPattern then Inr default_exec
      else Inl ''Invalid regular expression'')"

definition test_commits :: "commit list" where
  "test_commits = [\<lparr>message = ''fix typo'', sha = Some ''a1''\<rparr>,
                   \<lparr>message = ''Release 1.2.0'', sha = Some ''b2''\<rparr>,
                   \<lparr>message = ''Version 1.2.0'', sha = Some ''c3''\<rparr>]"

definition test_event :: event where
  "test_event =
     \<lparr>repository_owner = \<lparr>name = ''octocat'', email = ''octocat@example.com''\<rparr>,
      event_commits = test_commits\<rparr>"

definition test_config :: config where
  "test_config =
     \<lparr>commitPattern = default_commitPattern, createTagFlag = True,
      tagName = ''v%s'', tagMessage = ''v%s'',
      tagAuthor = \<lparr>name = ''octocat'', email = ''octocat@example.com''\<rparr>,
      publishCommand = ''yarn'', publishArgs = []\<rparr>"

definition test_spawn :: "string list \<Rightarrow> string \<Rightarrow> string list \<Rightarrow> proc_event \<times> string list" where
  "test_spawn refs cwd argv =
     (if take 2 argv = [''git'', ''rev-parse'']
        then (if last argv \<in> set refs then Exited (Some 0) [] else Exited (Some 1) [], refs)
      else if take 2 argv = [''git'', ''tag'']
        then (Exited (Some 0) [], (''refs/tags/'' @ last argv) # refs)
      else (Exited (Some 0) [], refs))"

definition test_platform :: "string list platform" where
  "test_platform =
     \<lparr>regexp = test_regexp,
      path_join = (\<lambda>a b. a @ ''/'' @ b),
      readEventJson = (\<lambda>f. if f = ''/github/workflow/event.json'' then Inr test_event
                            else Inl ''ENOENT: no such file or directory''),
      readPackageJson = (\<lambda>f. if f = ''/github/workspace/package.json''
                              then Inr (PackageObj (Some ''1.2.0''))
                              else Inl ''ENOENT: no such file or directory''),
      spawn = test_spawn\<rparr>"

lemmas test_defs = test_platform_def test_regexp_def default_exec_def is_space_def
  test_event_def test_commits_def test_config_def test_spawn_def default_commitPattern_def

lemmas model_defs = script_def main_def build_config_def processDirectory_def release_def
  createTag_def tag_probe_def publishPackage_def publish_argv_def checkCommit_def run_def
  and_then_def console_log_def setOutput_def setOutput_line_def init_state_def exit_status_def
  placeholderEnv_def arrayEnv_def getEnv_def or_undef_def or_default_def createTagFlag_of_def
  workspace_dir_def event_file_def safe_directory_args_def replace_placeholder_def
  encodeURIComponent_def uriUnreserved_def hexDigit_def match_group1_def Let_def

section \<open>Properties\<close>

subsection \<open>Sequencing and the process runner\<close>

lemma and_then_Inr: "fst (m st) = Inr a \<Longrightarrow> and_then m f st = f a (snd (m st))"
  by (cases "m st") (simp add: and_then_def)

lemma and_then_Inl: "fst (m st) = Inl e \<Longrightarrow> and_then m f st = (Inl e, snd (m st))"
  by (cases "m st") (simp add: and_then_def)

lemma fst_run:
  "fst (run P cwd command args st) =
     (case fst (spawn P (world st) cwd (command # args)) of
        SpawnError \<Rightarrow> Inl (Error (''command failed: '' @ command))
      | Exited code err \<Rightarrow> if code = Some 0 then Inr True else Inl (ExitError code))"
  by (simp add: run_def console_log_def Let_def split: prod.splits proc_event.splits)

lemma executed_run:
  "executed (snd (run P cwd command args st)) = executed st @ [(cwd, command # args)]"
  by (simp add: run_def console_log_def Let_def split: prod.splits proc_event.splits)

lemma world_run:
  "world (snd (run P cwd command args st)) = snd (spawn P (world st) cwd (command # args))"
  by (simp add: run_def console_log_def Let_def split: prod.splits proc_event.splits)

lemma exitCode_run: "exitCode (snd (run P cwd command args st)) = exitCode st"
  by (simp add: run_def console_log_def Let_def split: prod.splits proc_event.splits)

lemma console_run:
  "console (snd (run P cwd command args st)) =
     console st @ LogStr (''Executing: '' @ command @ '' '' @ join_space args) #
       (case fst (spawn P (world st) cwd (command # args)) of
          SpawnError \<Rightarrow> []
        | Exited code err \<Rightarrow>
            if code \<noteq> Some 0 \<and> err \<noteq> []
            then [LogStr (''command failed with code '' @ show_code code), LogStr err] else [])"
  by (simp add: run_def console_log_def Let_def split: prod.splits proc_event.splits)

subsection \<open>The commit matcher\<close>

lemma checkCommit_loop_snd:
  "world (snd (checkCommit_loop P config commits version st)) = world st \<and>
   executed (snd (checkCommit_loop P config commits version st)) = executed st \<and>
   filesRead (snd (checkCommit_loop P config commits version st)) = filesRead st \<and>
   exitCode (snd (checkCommit_loop P config commits version st)) = exitCode st"
  by (induction commits) (auto simp: console_log_def split: sum.splits option.splits)

lemma checkCommit_loop_fst:
  "fst (checkCommit_loop P config commits version st) =
   fst (checkCommit_loop P config commits version st')"
  by (induction commits) (auto split: sum.splits option.splits)

lemma match_group1_two:
  "length m = 2 \<Longrightarrow> (match_group1 m = Some v) = (\<exists>whole. m = [whole, Some v])"
  by (cases m; cases "tl m") (auto simp: match_group1_def)

lemma checkCommit_loop_find:
  assumes "regexp P (commitPattern config) = Inr exec"
      and "\<forall>str m. exec str = Some m \<longrightarrow> length m = 2"
  shows "fst (checkCommit_loop P config commits version st) =
     (case find (\<lambda>c. \<exists>whole. exec (message c) = Some [whole, Some version]) commits of
        None \<Rightarrow> Inl (NeutralExitError (''No commit found for version: '' @ version))
      | Some c \<Rightarrow> Inr c)"
proof (induction commits)
  case Nil
  show ?case by simp
next
  case (Cons c rest)
  show ?case
  proof (cases "exec (message c)")
    case None
    with Cons assms(1) show ?thesis by simp
  next
    case (Some m)
    with assms(2) have len: "length m = 2" by blast
    show ?thesis
      using Cons assms(1) Some match_group1_two [OF len, of version] by auto
  qed
qed

text \<open>
  C1. Let the pattern compile to a matcher whose match arrays have two entries (the
  matched text and one capture group). Then \<open>checkCommit\<close> returns the first commit of
  the list whose message matches with the text of the group equal to the version, and
  throws a \<open>NeutralExitError\<close> when the list has no such commit.
\<close>

theorem checkCommit_first_match:
  assumes "regexp P (commitPattern config) = Inr exec"
      and "\<forall>str m. exec str = Some m \<longrightarrow> length m = 2"
  shows "fst (checkCommit P config commits version st) =
     (case find (\<lambda>c. \<exists>whole. exec (message c) = Some [whole, Some version]) commits of
        None \<Rightarrow> Inl (NeutralExitError (''No commit found for version: '' @ version))
      | Some c \<Rightarrow> Inr c)"
  unfolding checkCommit_def by (rule checkCommit_loop_find [OF assms])

theorem checkCommit_first_match_witness:
  "regexp test_platform (commitPattern test_config) = Inr default_exec \<and>
   fst (checkCommit test_platform test_config test_commits ''1.2.0'' (init_state []))
     = Inr \<lparr>message = ''Release 1.2.0'', sha = Some ''b2''\<rparr> \<and>
   fst (checkCommit test_platform test_config test_commits ''1.2.1'' (init_state []))
     = Inl (NeutralExitError ''No commit found for version: 1.2.1'')"
proof -
  have h1: "regexp test_platform (commitPattern test_config) = Inr default_exec"
    by (simp add: test_defs)
  have h2: "\<forall>str m. default_exec str = Some m \<longrightarrow> length m = 2"
    by (auto simp: default_exec_def Let_def split: if_splits)
  show ?thesis
    unfolding checkCommit_first_match [OF h1 h2]
    by (simp add: test_defs Let_def)
qed

subsection \<open>The publish dispatcher\<close>

lemma publish_argv_not_Nil: "publish_argv config version \<noteq> []"
  by (simp add: publish_argv_def)

lemma publish_argv_hd_tl:
  "hd (publish_argv config version) # tl (publish_argv config version) = publish_argv config version"
  using publish_argv_not_Nil by simp

lemma executed_publishPackage:
  "executed (snd (publishPackage P dir config version st)) =
     executed st @ [(dir, publish_argv config version)]"
proof -
  let ?argv = "publish_argv config version"
  have "executed (snd (publishPackage P dir config version st)) =
          executed (snd (run P dir (hd ?argv) (tl ?argv) st))"
    by (cases "fst (run P dir (hd ?argv) (tl ?argv) st)")
       (simp_all add: publishPackage_def and_then_Inl and_then_Inr console_log_def)
  then show ?thesis
    by (simp add: executed_run publish_argv_hd_tl)
qed

text \<open>
  C3. \<open>publishPackage\<close> runs exactly one command, in the given directory: for the
  selector \<open>yarn\<close> it is \<open>yarn publish --non-interactive --new-version\<close>, the version
  and the extra arguments; for \<open>npm\<close> it is \<open>npm publish\<close> and the extra arguments; for
  any other selector it is the selector and the extra arguments.
\<close>

theorem publishPackage_command_line:
  "executed (snd (publishPackage P dir config version st)) =
     executed st @
     [(dir,
       if publishCommand config = ''yarn''
         then [''yarn'', ''publish'', ''--non-interactive'', ''--new-version'', version]
                @ publishArgs config
       else if publishCommand config = ''npm''
         then [''npm'', ''publish''] @ publishArgs config
       else [publishCommand config] @ publishArgs config)]"
  by (simp add: executed_publishPackage publish_argv_def)

subsection \<open>The tag probe\<close>

lemma and_then_eq:
  "and_then m f st =
     (case fst (m st) of Inl e \<Rightarrow> (Inl e, snd (m st)) | Inr a \<Rightarrow> f a (snd (m st)))"
  by (cases "m st") (simp add: and_then_def split: sum.splits)

lemma snd_tag_probe:
  "snd (tag_probe P dir tag st) =
   snd (run P dir ''git'' [''rev-parse'', ''-q'', ''--verify'', ''refs/tags/'' @ tag] st)"
  by (simp add: tag_probe_def split: prod.splits sum.splits)

lemma fst_tag_probe:
  "fst (tag_probe P dir tag st) =
     (case fst (spawn P (world st) dir
                  [''git'', ''rev-parse'', ''-q'', ''--verify'', ''refs/tags/'' @ tag]) of
        SpawnError \<Rightarrow> Inl (Error ''command failed: git'')
      | Exited code err \<Rightarrow>
          if code = Some 0 then Inr True
          else if code = Some 1 then Inr False
          else Inl (ExitError code))"
proof -
  let ?r = "run P dir ''git'' [''rev-parse'', ''-q'', ''--verify'', ''refs/tags/'' @ tag] st"
  have "fst (tag_probe P dir tag st) =
          (case fst ?r of Inl e \<Rightarrow> probe_catch e | Inr b \<Rightarrow> Inr b)"
    by (simp add: tag_probe_def split: prod.splits sum.splits)
  then show ?thesis
    by (simp add: fst_run split: proc_event.splits)
qed

lemma tag_probe_not_neutral:
  "fst (tag_probe P dir tag st) = Inl e \<Longrightarrow> \<not> isNeutralExitError e"
  by (auto simp: fst_tag_probe split: proc_event.splits if_splits)

text \<open>
  C4. The probe \<open>git rev-parse -q --verify refs/tags/<tag>\<close> gives \<open>true\<close> when
  the command exits with 0 and \<open>false\<close> (the tag is absent) when it exits with 1. Every
  other failure (another exit code, the end by a signal, a process that cannot be
  started) is passed on as it is: it is not a \<open>NeutralExitError\<close>, \<open>createTag\<close>
  fails with it, and \<open>createTag\<close> has run no other command.
\<close>

theorem tag_probe_absorbs_only_exit_1:
  "fst (tag_probe P dir tag st) =
     (case fst (spawn P (world st) dir
                  [''git'', ''rev-parse'', ''-q'', ''--verify'', ''refs/tags/'' @ tag]) of
        SpawnError \<Rightarrow> Inl (Error ''command failed: git'')
      | Exited code err \<Rightarrow>
          if code = Some 0 then Inr True
          else if code = Some 1 then Inr False
          else Inl (ExitError code))
   \<and> (\<forall>e. fst (tag_probe P dir (replace_placeholder (tagName config) version) st) = Inl e \<longrightarrow>
          \<not> isNeutralExitError e \<and>
          fst (createTag P dir config version st) = Inl e \<and>
          executed (snd (createTag P dir config version st)) =
            executed st @ [(dir, [''git'', ''rev-parse'', ''-q'', ''--verify'',
                                  ''refs/tags/'' @ replace_placeholder (tagName config) version])])"
proof (intro conjI allI impI)
  fix e
  assume e: "fst (tag_probe P dir (replace_placeholder (tagName config) version) st) = Inl e"
  then show "\<not> isNeutralExitError e"
    by (rule tag_probe_not_neutral)
  from e show "fst (createTag P dir config version st) = Inl e"
    by (simp add: createTag_def Let_def and_then_eq)
  from e show "executed (snd (createTag P dir config version st)) =
      executed st @ [(dir, [''git'', ''rev-parse'', ''-q'', ''--verify'',
                            ''refs/tags/'' @ replace_placeholder (tagName config) version])]"
    by (simp add: createTag_def Let_def and_then_eq snd_tag_probe executed_run)
qed (rule fst_tag_probe)

theorem tag_probe_absorbs_only_exit_1_witness:
  "fst (tag_probe test_platform ''/w'' ''v1.2.0'' (init_state [])) = Inr False \<and>
   fst (tag_probe (test_platform\<lparr>spawn := \<lambda>refs cwd argv. (Exited (Some 128) ''fatal'', refs)\<rparr>)
          ''/w'' ''v1.2.0'' (init_state [])) = Inl (ExitError (Some 128)) \<and>
   fst (createTag (test_platform\<lparr>spawn := \<lambda>refs cwd argv. (Exited (Some 128) ''fatal'', refs)\<rparr>)
          ''/w'' test_config ''1.2.0'' (init_state [])) = Inl (ExitError (Some 128)) \<and>
   executed (snd (createTag
          (test_platform\<lparr>spawn := \<lambda>refs cwd argv. (Exited (Some 128) ''fatal'', refs)\<rparr>)
          ''/w'' test_config ''1.2.0'' (init_state []))) =
     [(''/w'', [''git'', ''rev-parse'', ''-q'', ''--verify'', ''refs/tags/v1.2.0''])]"
proof -
  let ?P = "test_platform\<lparr>spawn := \<lambda>refs cwd argv. (Exited (Some 128) ''fatal'', refs)\<rparr>"
  have a: "fst (tag_probe test_platform ''/w'' ''v1.2.0'' (init_state [])) = Inr False"
    by (simp add: tag_probe_absorbs_only_exit_1 [THEN conjunct1] test_defs init_state_def)
  have b: "fst (tag_probe ?P ''/w'' ''v1.2.0'' (init_state [])) = Inl (ExitError (Some 128))"
    by (simp add: tag_probe_absorbs_only_exit_1 [THEN conjunct1] test_defs init_state_def)
  have r: "replace_placeholder (tagName test_config) ''1.2.0'' = ''v1.2.0''"
    by (simp add: test_defs replace_placeholder_def)
  from b r have
    "fst (tag_probe ?P ''/w'' (replace_placeholder (tagName test_config) ''1.2.0'') (init_state []))
       = Inl (ExitError (Some 128))"
    by simp
  from tag_probe_absorbs_only_exit_1 [THEN conjunct2, rule_format, OF this]
  have "fst (createTag ?P ''/w'' test_config ''1.2.0'' (init_state [])) = Inl (ExitError (Some 128))"
    and "executed (snd (createTag ?P ''/w'' test_config ''1.2.0'' (init_state []))) =
           [(''/w'', [''git'', ''rev-parse'', ''-q'', ''--verify'', ''refs/tags/v1.2.0''])]"
    by (simp_all add: r init_state_def)
  with a b show ?thesis by simp
qed

subsection \<open>The orchestrator\<close>

lemma checkCommit_fst:
  "fst (checkCommit P config commits version st) = fst (checkCommit P config commits version st')"
  unfolding checkCommit_def by (rule checkCommit_loop_fst)

lemma checkCommit_snd:
  "world (snd (checkCommit P config commits version st)) = world st \<and>
   executed (snd (checkCommit P config commits version st)) = executed st \<and>
   filesRead (snd (checkCommit P config commits version st)) = filesRead st \<and>
   exitCode (snd (checkCommit P config commits version st)) = exitCode st"
  unfolding checkCommit_def using checkCommit_loop_snd [of P config commits version]
  by (simp add: console_log_def)

lemma setOutput_changed_true: "setOutput_line ''changed'' (Some ''true'') = ''::set-output name=changed::true''"
  by (simp add: setOutput_line_def encodeURIComponent_def uriUnreserved_def)

lemma setOutput_changed_false: "setOutput_line ''changed'' (Some ''false'') = ''::set-output name=changed::false''"
  by (simp add: setOutput_line_def encodeURIComponent_def uriUnreserved_def)

lemma setOutput_version: "setOutput_line ''version'' (Some v) = ''::set-output name=version::'' @ encodeURIComponent v"
  by (simp add: setOutput_line_def encodeURIComponent_def uriUnreserved_def)

lemma setOutput_commit:
  "setOutput_line ''commit'' s = ''::set-output name=commit::'' @ encodeURIComponent (case s of None \<Rightarrow> [] | Some v \<Rightarrow> v)"
  by (simp add: setOutput_line_def encodeURIComponent_def uriUnreserved_def)

lemma release_Inr:
  assumes "fst (release P dir config commits version st) = Inr u"
  shows "\<exists>c pre. fst (checkCommit P config commits version st0) = Inr c \<and>
           console (snd (release P dir config commits version st)) =
             pre @ [LogStr ''::set-output name=changed::true'',
                    LogStr (''::set-output name=version::'' @ encodeURIComponent version),
                    LogStr (''::set-output name=commit::'' @
                              encodeURIComponent (case sha c of None \<Rightarrow> [] | Some s \<Rightarrow> s)),
                    LogStr ''Done.'']"
proof -
  let ?s1 = "snd (run P dir ''git'' safe_directory_args st)"
  obtain c where c: "fst (checkCommit P config commits version ?s1) = Inr c"
    using assms by (auto simp: release_def and_then_eq split: sum.splits)
  then have "fst (checkCommit P config commits version st0) = Inr c"
    using checkCommit_fst [of P config commits version st0 ?s1] by simp
  moreover have "\<exists>pre. console (snd (release P dir config commits version st)) =
             pre @ [LogStr ''::set-output name=changed::true'',
                    LogStr (''::set-output name=version::'' @ encodeURIComponent version),
                    LogStr (''::set-output name=commit::'' @
                              encodeURIComponent (case sha c of None \<Rightarrow> [] | Some s \<Rightarrow> s)),
                    LogStr ''Done.'']"
    using assms c
    by (auto simp: release_def and_then_eq console_log_def setOutput_def
          setOutput_changed_true setOutput_version setOutput_commit split: sum.splits)
  ultimately show ?thesis by blast
qed

lemma exitCode_tag_probe: "exitCode (snd (tag_probe P dir tag st)) = exitCode st"
  by (simp add: snd_tag_probe exitCode_run)

lemma exitCode_createTag: "exitCode (snd (createTag P dir config version st)) = exitCode st"
  by (simp add: createTag_def Let_def and_then_eq exitCode_run exitCode_tag_probe console_log_def
        split: sum.splits)

lemma exitCode_publishPackage: "exitCode (snd (publishPackage P dir config version st)) = exitCode st"
  by (simp add: publishPackage_def and_then_eq exitCode_run console_log_def split: sum.splits)

lemma exitCode_release: "exitCode (snd (release P dir config commits version st)) = exitCode st"
  by (simp add: release_def and_then_eq exitCode_run exitCode_createTag exitCode_publishPackage
        checkCommit_snd console_log_def setOutput_def split: sum.splits)

lemma exitCode_processDirectory:
  "exitCode (snd (processDirectory P dir config commits st)) = exitCode st"
  by (simp add: processDirectory_def Let_def exitCode_release
        split: sum.splits package_json.splits option.splits)

lemma exitCode_main: "exitCode (snd (main P env st)) = exitCode st"
  by (simp add: main_def Let_def exitCode_processDirectory console_log_def split: sum.splits)

lemma main_release:
  assumes "readEventJson P (event_file env) = Inr ev"
      and "build_config env ev = Inr config"
      and "readPackageJson P (path_join P (workspace_dir env) ''package.json'')
             = Inr (PackageObj (Some version))"
  shows "main P env (init_state w) =
           release P (workspace_dir env) config (event_commits ev) version
             \<lparr>world = w, executed = [],
              filesRead = [event_file env, path_join P (workspace_dir env) ''package.json''],
              console = [LogEvent ev], exitCode = None\<rparr>"
  using assms
  by (simp add: main_def processDirectory_def Let_def init_state_def console_log_def)

lemma main_Inr:
  assumes "fst (main P env (init_state w)) = Inr u"
  shows "\<exists>ev config version.
           readEventJson P (event_file env) = Inr ev \<and>
           build_config env ev = Inr config \<and>
           readPackageJson P (path_join P (workspace_dir env) ''package.json'')
             = Inr (PackageObj (Some version))"
  using assms
  by (auto simp: main_def processDirectory_def Let_def
        split: sum.splits package_json.splits option.splits)

lemma script_Inl:
  assumes "fst (main P env (init_state w)) = Inl e"
  shows "script P env w =
     (let st1 = setOutput ''changed'' (Some ''false'') (snd (main P env (init_state w)))
      in if isNeutralExitError e then st1\<lparr>exitCode := Some 0\<rparr>
         else console_log (if message_of e \<noteq> [] then LogStr (message_of e) else LogError e)
                (st1\<lparr>exitCode := Some 1\<rparr>))"
  using assms by (cases "main P env (init_state w)") (simp add: script_def)

lemma script_Inr:
  assumes "fst (main P env (init_state w)) = Inr u"
  shows "script P env w = snd (main P env (init_state w))"
  using assms by (cases "main P env (init_state w)") (simp add: script_def)

text \<open>
  C7. The three ends of a run. When \<open>main\<close> fails with a \<open>NeutralExitError\<close>, the
  script prints \<open>changed=false\<close> and the exit status is 0. When \<open>main\<close> fails with any
  other error, the script prints \<open>changed=false\<close>, then the message of the error (the
  error itself when the message is empty), and the exit status is 1. When \<open>main\<close>
  succeeds, the exit status is 0 and the last lines printed are \<open>changed=true\<close>, the
  version of the package document, the \<open>sha\<close> of the commit that \<open>checkCommit\<close>
  found (the empty string when the commit has none), each percent-encoded, and
  \<open>Done.\<close>.
\<close>

theorem terminal_reporting:
  "(case fst (main P env (init_state w)) of
      Inl e \<Rightarrow>
        if isNeutralExitError e
        then console (script P env w) =
               console (snd (main P env (init_state w))) @
                 [LogStr ''::set-output name=changed::false'']
             \<and> exit_status (script P env w) = 0
        else console (script P env w) =
               console (snd (main P env (init_state w))) @
                 [LogStr ''::set-output name=changed::false'',
                  if message_of e \<noteq> [] then LogStr (message_of e) else LogError e]
             \<and> exit_status (script P env w) = 1
    | Inr u \<Rightarrow>
        exit_status (script P env w) = 0 \<and>
        (\<exists>ev config version c pre.
           readEventJson P (event_file env) = Inr ev \<and>
           build_config env ev = Inr config \<and>
           readPackageJson P (path_join P (workspace_dir env) ''package.json'')
             = Inr (PackageObj (Some version)) \<and>
           fst (checkCommit P config (event_commits ev) version (init_state w)) = Inr c \<and>
           console (script P env w) =
             pre @ [LogStr ''::set-output name=changed::true'',
                    LogStr (''::set-output name=version::'' @ encodeURIComponent version),
                    LogStr (''::set-output name=commit::'' @
                              encodeURIComponent (case sha c of None \<Rightarrow> [] | Some s \<Rightarrow> s)),
                    LogStr ''Done.'']))"
proof (cases "fst (main P env (init_state w))")
  case (Inl e)
  then show ?thesis
    by (simp add: script_Inl Let_def setOutput_def setOutput_changed_false console_log_def
          exit_status_def)
next
  case (Inr u)
  have ex: "exit_status (script P env w) = 0"
    by (simp add: script_Inr [OF Inr] exit_status_def exitCode_main init_state_def)
  from main_Inr [OF Inr] obtain ev config version where
    reads: "readEventJson P (event_file env) = Inr ev"
           "build_config env ev = Inr config"
           "readPackageJson P (path_join P (workspace_dir env) ''package.json'')
              = Inr (PackageObj (Some version))"
    by blast
  let ?st = "\<lparr>world = w, executed = [],
              filesRead = [event_file env, path_join P (workspace_dir env) ''package.json''],
              console = [LogEvent ev], exitCode = None\<rparr>"
  have m: "main P env (init_state w) =
             release P (workspace_dir env) config (event_commits ev) version ?st"
    by (rule main_release [OF reads])
  with Inr have "fst (release P (workspace_dir env) config (event_commits ev) version ?st) = Inr u"
    by simp
  from release_Inr [OF this, of "init_state w"] obtain c pre where
    "fst (checkCommit P config (event_commits ev) version (init_state w)) = Inr c"
    "console (snd (release P (workspace_dir env) config (event_commits ev) version ?st)) =
       pre @ [LogStr ''::set-output name=changed::true'',
              LogStr (''::set-output name=version::'' @ encodeURIComponent version),
              LogStr (''::set-output name=commit::'' @
                        encodeURIComponent (case sha c of None \<Rightarrow> [] | Some s \<Rightarrow> s)),
              LogStr ''Done.'']"
    by blast
  with reads m have "\<exists>ev config version c pre.
           readEventJson P (event_file env) = Inr ev \<and>
           build_config env ev = Inr config \<and>
           readPackageJson P (path_join P (workspace_dir env) ''package.json'')
             = Inr (PackageObj (Some version)) \<and>
           fst (checkCommit P config (event_commits ev) version (init_state w)) = Inr c \<and>
           console (script P env w) =
             pre @ [LogStr ''::set-output name=changed::true'',
                    LogStr (''::set-output name=version::'' @ encodeURIComponent version),
                    LogStr (''::set-output name=commit::'' @
                              encodeURIComponent (case sha c of None \<Rightarrow> [] | Some s \<Rightarrow> s)),
                    LogStr ''Done.'']"
    unfolding script_Inr [OF Inr] by (metis snd_conv prod.collapse)
  with ex Inr show ?thesis by simp
qed

theorem terminal_reporting_witness:
  "exit_status (script test_platform (\<lambda>_. None) []) = 0 \<and>
   exit_status (script test_platform (\<lambda>_. None) [''refs/tags/v1.2.0'']) = 0 \<and>
   last (console (script test_platform (\<lambda>_. None) [''refs/tags/v1.2.0'']))
     = LogStr ''::set-output name=changed::false'' \<and>
   exit_status (script (test_platform\<lparr>spawn := \<lambda>refs cwd argv. (Exited (Some 128) [], refs)\<rparr>)
                  (\<lambda>_. None) []) = 1 \<and>
   last (console (script (test_platform\<lparr>spawn := \<lambda>refs cwd argv. (Exited (Some 128) [], refs)\<rparr>)
                  (\<lambda>_. None) [])) = LogStr ''command failed with code 128''"
proof -
  let ?P = "test_platform\<lparr>spawn := \<lambda>refs cwd argv. (Exited (Some 128) [], refs)\<rparr>"
  have m1: "fst (main test_platform (\<lambda>_. None) (init_state [])) = Inr ()"
    by (simp add: model_defs test_defs)
  have m2: "fst (main test_platform (\<lambda>_. None) (init_state [''refs/tags/v1.2.0'']))
              = Inl (NeutralExitError [])"
    by (simp add: model_defs test_defs)
  have m3: "fst (main ?P (\<lambda>_. None) (init_state [])) = Inl (ExitError (Some 128))"
    by (simp add: model_defs test_defs)
  have msg: "message_of (ExitError (Some 128)) = ''command failed with code 128''"
    by (simp add: show_code_def show_nat.simps)
  have c1: "exit_status (script test_platform (\<lambda>_. None) []) = 0"
    using terminal_reporting [of test_platform "\<lambda>_. None" "[]"] m1 by simp
  have c2: "exit_status (script test_platform (\<lambda>_. None) [''refs/tags/v1.2.0'']) = 0 \<and>
            last (console (script test_platform (\<lambda>_. None) [''refs/tags/v1.2.0'']))
              = LogStr ''::set-output name=changed::false''"
    using terminal_reporting [of test_platform "\<lambda>_. None" "[''refs/tags/v1.2.0'']"] m2 by simp
  have c3: "exit_status (script ?P (\<lambda>_. None) []) = 1 \<and>
            last (console (script ?P (\<lambda>_. None) [])) = LogStr ''command failed with code 128''"
    using terminal_reporting [of ?P "\<lambda>_. None" "[]"] m3 msg by simp
  from c1 c2 c3 show ?thesis by simp
qed

subsection \<open>The top level of the script\<close>

lemma checkCommit_loop_console:
  "console (snd (checkCommit_loop P config commits version st)) =
     console st @ (case fst (checkCommit_loop P config commits version st) of
                     Inr c \<Rightarrow> [LogStr (''Found commit: '' @ message c)]
                   | Inl e \<Rightarrow> [])"
  by (induction commits) (auto simp: console_log_def split: sum.splits option.splits)

lemma checkCommit_console:
  "console (snd (checkCommit P config commits version st)) =
     console st @ LogCommits commits #
       (case fst (checkCommit P config commits version st) of
          Inr c \<Rightarrow> [LogStr (''Found commit: '' @ message c)]
        | Inl e \<Rightarrow> [])"
  unfolding checkCommit_def by (simp add: checkCommit_loop_console console_log_def)

lemma script_executed: "executed (script P env w) = executed (snd (main P env (init_state w)))"
  by (cases "main P env (init_state w)")
     (simp add: script_def Let_def setOutput_def console_log_def split: sum.splits)

lemma script_console:
  "console (script P env w) =
     console (snd (main P env (init_state w))) @
       (case fst (main P env (init_state w)) of
          Inr u \<Rightarrow> []
        | Inl e \<Rightarrow>
            LogStr ''::set-output name=changed::false'' #
              (if isNeutralExitError e then []
               else [if message_of e \<noteq> [] then LogStr (message_of e) else LogError e]))"
  by (cases "main P env (init_state w)")
     (simp add: script_def Let_def setOutput_def setOutput_changed_false console_log_def
        split: sum.splits)

lemma script_exit_status:
  "exit_status (script P env w) =
     (case fst (main P env (init_state w)) of
        Inr u \<Rightarrow> 0
      | Inl e \<Rightarrow> if isNeutralExitError e then 0 else 1)"
proof (cases "fst (main P env (init_state w))")
  case (Inl e)
  then show ?thesis
    by (simp add: script_Inl Let_def exit_status_def setOutput_def console_log_def)
next
  case (Inr u)
  then show ?thesis
    by (simp add: script_Inr exit_status_def exitCode_main init_state_def)
qed

subsection \<open>The scenarios on the test platform\<close>

lemma test_event_read:
  "readEventJson test_platform (event_file (\<lambda>_. None)) = Inr test_event"
  by (simp add: test_platform_def event_file_def or_default_def)

lemma test_package_read:
  "readPackageJson test_platform (path_join test_platform (workspace_dir (\<lambda>_. None)) ''package.json'')
     = Inr (PackageObj (Some ''1.2.0''))"
  by (simp add: test_platform_def workspace_dir_def or_default_def or_undef_def getEnv_def)

lemma test_build_config: "build_config (\<lambda>_. None) test_event = Inr test_config"
  by (simp add: model_defs test_defs)

lemma test_commit_found:
  "fst (checkCommit test_platform test_config (event_commits test_event) ''1.2.0'' (init_state w))
     = Inr \<lparr>message = ''Release 1.2.0'', sha = Some ''b2''\<rparr>"
  by (simp add: model_defs test_defs)

lemma test_safe_directory:
  "spawn test_platform w (workspace_dir (\<lambda>_. None)) (''git'' # safe_directory_args)
     = (Exited (Some 0) [], w)"
  by (simp add: test_platform_def test_spawn_def safe_directory_args_def)

subsection \<open>An existing tag\<close>

text \<open>
  C5. Take a run that reaches the tag step with tag creation enabled: the event document
  is read, the configuration is accepted, the package document has a version, the
  \<open>safe.directory\<close> command succeeds and a commit matches. If the probe of the rendered
  tag name exits with 0 (the tag exists), \<open>main\<close> fails with a \<open>NeutralExitError\<close>;
  the commands run are the \<open>safe.directory\<close> command and the probe, and no other (no
  \<open>git tag\<close>, no \<open>git push\<close>, no publish command); the console ends with
  \<open>changed=false\<close> and never shows \<open>changed=true\<close>; the exit status is 0.
\<close>

theorem existing_tag_neutral_stop:
  assumes "readEventJson P (event_file env) = Inr ev"
      and "build_config env ev = Inr config"
      and "readPackageJson P (path_join P (workspace_dir env) ''package.json'')
             = Inr (PackageObj (Some version))"
      and "createTagFlag config"
      and "spawn P w (workspace_dir env) (''git'' # safe_directory_args) = (Exited (Some 0) err1, w1)"
      and "fst (checkCommit P config (event_commits ev) version (init_state w)) = Inr c"
      and "spawn P w1 (workspace_dir env)
             [''git'', ''rev-parse'', ''-q'', ''--verify'',
              ''refs/tags/'' @ replace_placeholder (tagName config) version]
           = (Exited (Some 0) err2, w2)"
  shows "fst (main P env (init_state w)) = Inl (NeutralExitError []) \<and>
         executed (script P env w) =
           [(workspace_dir env, ''git'' # safe_directory_args),
            (workspace_dir env,
             [''git'', ''rev-parse'', ''-q'', ''--verify'',
              ''refs/tags/'' @ replace_placeholder (tagName config) version])] \<and>
         console (script P env w) =
           [LogEvent ev,
            LogStr (''Executing: git '' @ join_space safe_directory_args),
            LogCommits (event_commits ev),
            LogStr (''Found commit: '' @ message c),
            LogStr (''Executing: git rev-parse -q --verify refs/tags/''
                      @ replace_placeholder (tagName config) version),
            LogStr (''Tag already exists: '' @ replace_placeholder (tagName config) version),
            LogStr ''::set-output name=changed::false''] \<and>
         exit_status (script P env w) = 0"
proof -
  let ?st = "\<lparr>world = w, executed = [],
              filesRead = [event_file env, path_join P (workspace_dir env) ''package.json''],
              console = [LogEvent ev], exitCode = None\<rparr>"
  let ?s1 = "snd (run P (workspace_dir env) ''git'' safe_directory_args ?st)"
  have m: "main P env (init_state w) =
             release P (workspace_dir env) config (event_commits ev) version ?st"
    by (rule main_release [OF assms(1-3)])
  have cc: "fst (checkCommit P config (event_commits ev) version ?s1) = Inr c"
    using assms(6) checkCommit_fst [of P config "event_commits ev" version ?s1 "init_state w"]
    by simp
  have r: "fst (release P (workspace_dir env) config (event_commits ev) version ?st)
             = Inl (NeutralExitError [])"
    using assms(4,5,7) cc
    by (simp add: release_def and_then_eq fst_run createTag_def Let_def fst_tag_probe
          snd_tag_probe world_run checkCommit_snd)
  have e: "executed (snd (release P (workspace_dir env) config (event_commits ev) version ?st)) =
           [(workspace_dir env, ''git'' # safe_directory_args),
            (workspace_dir env,
             [''git'', ''rev-parse'', ''-q'', ''--verify'',
              ''refs/tags/'' @ replace_placeholder (tagName config) version])]"
    using assms(4,5,7) cc
    by (simp add: release_def and_then_eq fst_run createTag_def Let_def fst_tag_probe
          snd_tag_probe world_run executed_run checkCommit_snd console_log_def)
  have k: "console (snd (release P (workspace_dir env) config (event_commits ev) version ?st)) =
           [LogEvent ev,
            LogStr (''Executing: git '' @ join_space safe_directory_args),
            LogCommits (event_commits ev),
            LogStr (''Found commit: '' @ message c),
            LogStr (''Executing: git rev-parse -q --verify refs/tags/''
                      @ replace_placeholder (tagName config) version),
            LogStr (''Tag already exists: '' @ replace_placeholder (tagName config) version)]"
    using assms(4,5,7) cc
    by (simp add: release_def and_then_eq fst_run createTag_def Let_def fst_tag_probe
          snd_tag_probe world_run console_run checkCommit_snd checkCommit_console console_log_def)
  show ?thesis
    using r e k by (simp add: m script_executed script_console script_exit_status)
qed

theorem existing_tag_neutral_stop_witness:
  "executed (script test_platform (\<lambda>_. None) [''refs/tags/v1.2.0'']) =
     [(''/github/workspace'',
       [''git'', ''config'', ''--global'', ''--add'', ''safe.directory'', ''/github/workspace'']),
      (''/github/workspace'', [''git'', ''rev-parse'', ''-q'', ''--verify'', ''refs/tags/v1.2.0''])] \<and>
   console (script test_platform (\<lambda>_. None) [''refs/tags/v1.2.0'']) =
     [LogEvent test_event,
      LogStr ''Executing: git config --global --add safe.directory /github/workspace'',
      LogCommits test_commits,
      LogStr ''Found commit: Release 1.2.0'',
      LogStr ''Executing: git rev-parse -q --verify refs/tags/v1.2.0'',
      LogStr ''Tag already exists: v1.2.0'',
      LogStr ''::set-output name=changed::false''] \<and>
   exit_status (script test_platform (\<lambda>_. None) [''refs/tags/v1.2.0'']) = 0"
proof -
  have flag: "createTagFlag test_config"
    by (simp add: test_config_def)
  have r: "replace_placeholder (tagName test_config) ''1.2.0'' = ''v1.2.0''"
    by (simp add: test_config_def replace_placeholder_def)
  have probe: "spawn test_platform [''refs/tags/v1.2.0''] (workspace_dir (\<lambda>_. None))
                 [''git'', ''rev-parse'', ''-q'', ''--verify'',
                  ''refs/tags/'' @ replace_placeholder (tagName test_config) ''1.2.0'']
               = (Exited (Some 0) [], [''refs/tags/v1.2.0''])"
    by (simp add: r test_platform_def test_spawn_def)
  have dir: "workspace_dir (\<lambda>_. None) = ''/github/workspace''"
    by (simp add: workspace_dir_def or_default_def or_undef_def getEnv_def)
  show ?thesis
    using existing_tag_neutral_stop [OF test_event_read test_build_config test_package_read
            flag test_safe_directory test_commit_found probe]
    by (simp add: r dir safe_directory_args_def test_event_def)
qed

subsection \<open>The create-tag flag\<close>

lemma build_config_createTagFlag:
  "build_config env ev = Inr config \<Longrightarrow> createTagFlag config = createTagFlag_of env"
  by (auto simp: build_config_def split: sum.splits)

lemma executed_createTag_prefix:
  "\<exists>rest. executed (snd (createTag P dir config version st)) =
     executed st @ (dir, [''git'', ''rev-parse'', ''-q'', ''--verify'',
                          ''refs/tags/'' @ replace_placeholder (tagName config) version]) # rest"
  by (simp add: createTag_def Let_def and_then_eq snd_tag_probe executed_run console_log_def
        split: sum.splits)

text \<open>
  C8. In the configuration that \<open>main\<close> builds, tag creation is disabled exactly when
  \<open>getEnv("CREATE_TAG")\<close> is the string \<open>false\<close>; in particular it is enabled when
  neither \<open>CREATE_TAG\<close> nor \<open>INPUT_CREATE_TAG\<close> is set. In a run that reaches the tag
  step (the \<open>safe.directory\<close> command succeeds and a commit matches): when tag creation
  is disabled, the commands run are the \<open>safe.directory\<close> command and the publish
  command, and no other; when it is enabled, the command after the \<open>safe.directory\<close>
  command is the probe of the tag.
\<close>

theorem create_tag_flag:
  assumes "readEventJson P (event_file env) = Inr ev"
      and "build_config env ev = Inr config"
      and "readPackageJson P (path_join P (workspace_dir env) ''package.json'')
             = Inr (PackageObj (Some version))"
      and "spawn P w (workspace_dir env) (''git'' # safe_directory_args) = (Exited (Some 0) err1, w1)"
      and "fst (checkCommit P config (event_commits ev) version (init_state w)) = Inr c"
  shows "createTagFlag config = (getEnv env ''CREATE_TAG'' \<noteq> Some ''false'') \<and>
         (env ''CREATE_TAG'' = None \<and> env ''INPUT_CREATE_TAG'' = None \<longrightarrow> createTagFlag config) \<and>
         (\<not> createTagFlag config \<longrightarrow>
            executed (script P env w) =
              [(workspace_dir env, ''git'' # safe_directory_args),
               (workspace_dir env, publish_argv config version)]) \<and>
         (createTagFlag config \<longrightarrow>
            (\<exists>rest. executed (script P env w) =
               (workspace_dir env, ''git'' # safe_directory_args) #
               (workspace_dir env, [''git'', ''rev-parse'', ''-q'', ''--verify'',
                  ''refs/tags/'' @ replace_placeholder (tagName config) version]) # rest))"
proof -
  let ?st = "\<lparr>world = w, executed = [],
              filesRead = [event_file env, path_join P (workspace_dir env) ''package.json''],
              console = [LogEvent ev], exitCode = None\<rparr>"
  let ?s1 = "snd (run P (workspace_dir env) ''git'' safe_directory_args ?st)"
  let ?s2 = "snd (checkCommit P config (event_commits ev) version ?s1)"
  have flag: "createTagFlag config = (getEnv env ''CREATE_TAG'' \<noteq> Some ''false'')"
    using build_config_createTagFlag [OF assms(2)] by (simp add: createTagFlag_of_def)
  have absent: "env ''CREATE_TAG'' = None \<and> env ''INPUT_CREATE_TAG'' = None \<longrightarrow> createTagFlag config"
    by (simp add: flag getEnv_def or_undef_def)
  have m: "main P env (init_state w) =
             release P (workspace_dir env) config (event_commits ev) version ?st"
    by (rule main_release [OF assms(1-3)])
  have cc: "fst (checkCommit P config (event_commits ev) version ?s1) = Inr c"
    using assms(5) checkCommit_fst [of P config "event_commits ev" version ?s1 "init_state w"]
    by simp
  have off: "executed (script P env w) =
              [(workspace_dir env, ''git'' # safe_directory_args),
               (workspace_dir env, publish_argv config version)]"
    if "\<not> createTagFlag config"
    using that assms(4) cc
    by (simp add: script_executed m release_def and_then_eq fst_run executed_run
          executed_publishPackage checkCommit_snd console_log_def setOutput_def split: sum.splits)
  have on: "\<exists>rest. executed (script P env w) =
               (workspace_dir env, ''git'' # safe_directory_args) #
               (workspace_dir env, [''git'', ''rev-parse'', ''-q'', ''--verify'',
                  ''refs/tags/'' @ replace_placeholder (tagName config) version]) # rest"
    if "createTagFlag config"
  proof -
    obtain rest where
      ct: "executed (snd (createTag P (workspace_dir env) config version ?s2)) =
           executed ?s2 @ (workspace_dir env, [''git'', ''rev-parse'', ''-q'', ''--verify'',
                  ''refs/tags/'' @ replace_placeholder (tagName config) version]) # rest"
      using executed_createTag_prefix by blast
    have s2: "executed ?s2 = [(workspace_dir env, ''git'' # safe_directory_args)]"
      by (simp add: checkCommit_snd executed_run)
    show ?thesis
      using that assms(4) cc ct s2
      by (auto simp: script_executed m release_def and_then_eq fst_run
            executed_publishPackage console_log_def setOutput_def split: sum.splits)
  qed
  from flag absent off on show ?thesis by blast
qed

theorem create_tag_flag_witness:
  "executed (script test_platform ((\<lambda>_. None)(''CREATE_TAG'' \<mapsto> ''false'')) []) =
     [(''/github/workspace'',
       [''git'', ''config'', ''--global'', ''--add'', ''safe.directory'', ''/github/workspace'']),
      (''/github/workspace'',
       [''yarn'', ''publish'', ''--non-interactive'', ''--new-version'', ''1.2.0''])]"
proof -
  let ?env = "(\<lambda>_. None)(''CREATE_TAG'' \<mapsto> ''false'')"
  let ?cfg = "test_config\<lparr>createTagFlag := False\<rparr>"
  have h1: "readEventJson test_platform (event_file ?env) = Inr test_event"
    by (simp add: test_platform_def event_file_def or_default_def)
  have h2: "build_config ?env test_event = Inr ?cfg"
    by (simp add: model_defs test_defs)
  have dir: "workspace_dir ?env = ''/github/workspace''"
    by (simp add: workspace_dir_def or_default_def or_undef_def getEnv_def)
  have h3: "readPackageJson test_platform (path_join test_platform (workspace_dir ?env) ''package.json'')
              = Inr (PackageObj (Some ''1.2.0''))"
    by (simp add: dir test_platform_def)
  have h4: "spawn test_platform [] (workspace_dir ?env) (''git'' # safe_directory_args)
              = (Exited (Some 0) [], [])"
    by (simp add: test_platform_def test_spawn_def safe_directory_args_def)
  have h5: "fst (checkCommit test_platform ?cfg (event_commits test_event) ''1.2.0'' (init_state []))
              = Inr \<lparr>message = ''Release 1.2.0'', sha = Some ''b2''\<rparr>"
    by (simp add: model_defs test_defs)
  have off: "\<not> createTagFlag ?cfg"
    by simp
  from create_tag_flag [OF h1 h2 h3 h4 h5, THEN conjunct2, THEN conjunct2, THEN conjunct1,
         THEN mp, OF off]
  show ?thesis
    by (simp add: dir safe_directory_args_def publish_argv_def test_config_def)
qed

subsection \<open>The safe.directory command\<close>

lemma executed_release_prefix:
  "\<exists>rest. executed (snd (release P dir config commits version st)) =
     executed st @ (dir, ''git'' # safe_directory_args) # rest"
proof -
  let ?s1 = "snd (run P dir ''git'' safe_directory_args st)"
  let ?s2 = "snd (checkCommit P config commits version ?s1)"
  obtain rest where
    ct: "executed (snd (createTag P dir config version ?s2)) =
           executed ?s2 @ (dir, [''git'', ''rev-parse'', ''-q'', ''--verify'',
                  ''refs/tags/'' @ replace_placeholder (tagName config) version]) # rest"
    using executed_createTag_prefix by blast
  show ?thesis
    using ct
    by (auto simp: release_def and_then_eq executed_run executed_publishPackage checkCommit_snd
          console_log_def setOutput_def split: sum.splits)
qed

text \<open>
  C9. Take a run in which the event document is read and the configuration is accepted.
  If the package document gives no version, no command is run. If it gives a version,
  the first command run is \<open>git config --global --add safe.directory /github/workspace\<close>
  in the workspace directory; and if that command does not exit with 0 (another exit
  code, a signal, or a process that cannot be started), it is the only command run,
  \<open>main\<close> fails with the runner's error, the commits were never looked at (the console
  has no entry of \<open>checkCommit\<close>), \<open>changed=false\<close> is printed and the exit status
  is 1.
\<close>

theorem safe_directory_step:
  assumes "readEventJson P (event_file env) = Inr ev"
      and "build_config env ev = Inr config"
  shows "((\<forall>v. readPackageJson P (path_join P (workspace_dir env) ''package.json'')
                 \<noteq> Inr (PackageObj (Some v))) \<longrightarrow>
            executed (script P env w) = []) \<and>
         (\<forall>version.
            readPackageJson P (path_join P (workspace_dir env) ''package.json'')
              = Inr (PackageObj (Some version)) \<longrightarrow>
            (\<exists>rest. executed (script P env w) =
                      (workspace_dir env, ''git'' # safe_directory_args) # rest) \<and>
            ((\<forall>err. fst (spawn P w (workspace_dir env) (''git'' # safe_directory_args))
                      \<noteq> Exited (Some 0) err) \<longrightarrow>
               executed (script P env w) = [(workspace_dir env, ''git'' # safe_directory_args)] \<and>
               fst (main P env (init_state w)) =
                 (case fst (spawn P w (workspace_dir env) (''git'' # safe_directory_args)) of
                    SpawnError \<Rightarrow> Inl (Error ''command failed: git'')
                  | Exited code err \<Rightarrow> Inl (ExitError code)) \<and>
               LogCommits (event_commits ev) \<notin> set (console (script P env w)) \<and>
               LogStr ''::set-output name=changed::false'' \<in> set (console (script P env w)) \<and>
               exit_status (script P env w) = 1))"
proof (intro conjI allI impI)
  assume "\<forall>v. readPackageJson P (path_join P (workspace_dir env) ''package.json'')
                 \<noteq> Inr (PackageObj (Some v))"
  then show "executed (script P env w) = []"
    using assms
    by (auto simp: script_executed main_def processDirectory_def Let_def init_state_def
          console_log_def split: sum.splits package_json.splits option.splits)
next
  fix version
  assume pkg: "readPackageJson P (path_join P (workspace_dir env) ''package.json'')
                 = Inr (PackageObj (Some version))"
  let ?st = "\<lparr>world = w, executed = [],
              filesRead = [event_file env, path_join P (workspace_dir env) ''package.json''],
              console = [LogEvent ev], exitCode = None\<rparr>"
  have m: "main P env (init_state w) =
             release P (workspace_dir env) config (event_commits ev) version ?st"
    by (rule main_release [OF assms pkg])
  show "\<exists>rest. executed (script P env w) =
                      (workspace_dir env, ''git'' # safe_directory_args) # rest"
    using executed_release_prefix [of P "workspace_dir env" config "event_commits ev" version ?st]
    by (simp add: script_executed m)
  assume fail: "\<forall>err. fst (spawn P w (workspace_dir env) (''git'' # safe_directory_args))
                      \<noteq> Exited (Some 0) err"
  have r: "fst (release P (workspace_dir env) config (event_commits ev) version ?st) =
             (case fst (spawn P w (workspace_dir env) (''git'' # safe_directory_args)) of
                SpawnError \<Rightarrow> Inl (Error ''command failed: git'')
              | Exited code err \<Rightarrow> Inl (ExitError code))"
    using fail
    by (auto simp: release_def and_then_eq fst_run split: proc_event.splits sum.splits)
  have s: "snd (release P (workspace_dir env) config (event_commits ev) version ?st) =
             snd (run P (workspace_dir env) ''git'' safe_directory_args ?st)"
    using fail
    by (auto simp: release_def and_then_eq fst_run split: proc_event.splits sum.splits)
  show "executed (script P env w) = [(workspace_dir env, ''git'' # safe_directory_args)]"
    by (simp add: script_executed m s executed_run)
  show "fst (main P env (init_state w)) =
                 (case fst (spawn P w (workspace_dir env) (''git'' # safe_directory_args)) of
                    SpawnError \<Rightarrow> Inl (Error ''command failed: git'')
                  | Exited code err \<Rightarrow> Inl (ExitError code))"
    by (simp add: m r)
  show "LogCommits (event_commits ev) \<notin> set (console (script P env w))"
    by (auto simp: script_console m r s console_run split: proc_event.splits if_splits)
  show "LogStr ''::set-output name=changed::false'' \<in> set (console (script P env w))"
    by (auto simp: script_console m r split: proc_event.splits)
  show "exit_status (script P env w) = 1"
    by (auto simp: script_exit_status m r split: proc_event.splits)
qed

theorem safe_directory_step_witness:
  "executed (script (test_platform\<lparr>spawn := \<lambda>refs cwd argv. (Exited (Some 128) [], refs)\<rparr>)
               (\<lambda>_. None) []) =
     [(''/github/workspace'',
       [''git'', ''config'', ''--global'', ''--add'', ''safe.directory'', ''/github/workspace''])] \<and>
   exit_status (script (test_platform\<lparr>spawn := \<lambda>refs cwd argv. (Exited (Some 128) [], refs)\<rparr>)
               (\<lambda>_. None) []) = 1"
proof -
  let ?P = "test_platform\<lparr>spawn := \<lambda>refs cwd argv. (Exited (Some 128) [], refs)\<rparr>"
  have h1: "readEventJson ?P (event_file (\<lambda>_. None)) = Inr test_event"
    by (simp add: test_platform_def event_file_def or_default_def)
  have dir: "workspace_dir (\<lambda>_. None) = ''/github/workspace''"
    by (simp add: workspace_dir_def or_default_def or_undef_def getEnv_def)
  have pkg: "readPackageJson ?P (path_join ?P (workspace_dir (\<lambda>_. None)) ''package.json'')
              = Inr (PackageObj (Some ''1.2.0''))"
    by (simp add: dir test_platform_def)
  have fail: "\<forall>err. fst (spawn ?P [] (workspace_dir (\<lambda>_. None)) (''git'' # safe_directory_args))
                \<noteq> Exited (Some 0) err"
    by simp
  from safe_directory_step [OF h1 test_build_config, of "[]", THEN conjunct2, rule_format, OF pkg,
         THEN conjunct2, THEN mp, OF fail]
  show ?thesis
    by (simp add: dir safe_directory_args_def)
qed

subsection \<open>A missing package document\<close>

text \<open>
  C2, as the code has it. Take a run in which the event document is read and the
  configuration is accepted. If reading \<open>package.json\<close> fails, \<open>main\<close> fails with a
  \<open>NeutralExitError\<close> whose message names the package file; no command is run; the
  console shows the event and \<open>changed=false\<close> and nothing else (the message is not
  printed); the exit status is 0.
\<close>

theorem missing_package_neutral:
  assumes "readEventJson P (event_file env) = Inr ev"
      and "build_config env ev = Inr config"
      and "readPackageJson P (path_join P (workspace_dir env) ''package.json'') = Inl msg"
  shows "fst (main P env (init_state w)) =
           Inl (NeutralExitError (''package file not found: ''
                  @ path_join P (workspace_dir env) ''package.json'')) \<and>
         executed (script P env w) = [] \<and>
         console (script P env w) = [LogEvent ev, LogStr ''::set-output name=changed::false''] \<and>
         exit_status (script P env w) = 0"
proof -
  have m: "main P env (init_state w) =
     (Inl (NeutralExitError (''package file not found: ''
             @ path_join P (workspace_dir env) ''package.json'')),
      \<lparr>world = w, executed = [],
       filesRead = [event_file env, path_join P (workspace_dir env) ''package.json''],
       console = [LogEvent ev], exitCode = None\<rparr>)"
    using assms
    by (simp add: main_def processDirectory_def Let_def init_state_def console_log_def)
  show ?thesis
    by (simp add: script_executed script_console script_exit_status m)
qed

theorem missing_package_neutral_witness:
  "executed (script (test_platform\<lparr>readPackageJson := \<lambda>f. Inl ''ENOENT''\<rparr>) (\<lambda>_. None) []) = [] \<and>
   console (script (test_platform\<lparr>readPackageJson := \<lambda>f. Inl ''ENOENT''\<rparr>) (\<lambda>_. None) [])
     = [LogEvent test_event, LogStr ''::set-output name=changed::false''] \<and>
   exit_status (script (test_platform\<lparr>readPackageJson := \<lambda>f. Inl ''ENOENT''\<rparr>) (\<lambda>_. None) []) = 0"
proof -
  let ?P = "test_platform\<lparr>readPackageJson := \<lambda>f. Inl ''ENOENT''\<rparr>"
  have h1: "readEventJson ?P (event_file (\<lambda>_. None)) = Inr test_event"
    by (simp add: test_platform_def event_file_def or_default_def)
  have h3: "readPackageJson ?P (path_join ?P (workspace_dir (\<lambda>_. None)) ''package.json'')
              = Inl ''ENOENT''"
    by simp
  from missing_package_neutral [OF h1 test_build_config h3, of "[]"]
  show ?thesis by simp
qed

text \<open>
  C2 as stated fails: on the test platform without a package document the exit status
  is 0, not a failing one, and no message about the package file is printed.
\<close>

theorem missing_package_exit_status_zero:
  "readPackageJson (test_platform\<lparr>readPackageJson := \<lambda>f. Inl ''ENOENT: no such file or directory''\<rparr>)
     ''/github/workspace/package.json'' = Inl ''ENOENT: no such file or directory'' \<and>
   fst (main (test_platform\<lparr>readPackageJson := \<lambda>f. Inl ''ENOENT: no such file or directory''\<rparr>)
          (\<lambda>_. None) (init_state []))
     = Inl (NeutralExitError ''package file not found: /github/workspace/package.json'') \<and>
   exit_status (script (test_platform\<lparr>readPackageJson := \<lambda>f. Inl ''ENOENT: no such file or directory''\<rparr>)
                  (\<lambda>_. None) []) = 0 \<and>
   console (script (test_platform\<lparr>readPackageJson := \<lambda>f. Inl ''ENOENT: no such file or directory''\<rparr>)
              (\<lambda>_. None) [])
     = [LogEvent test_event, LogStr ''::set-output name=changed::false'']"
  by (simp add: model_defs test_defs)

subsection \<open>The extra arguments of the publish command\<close>

lemma split_space_not_Nil: "split_space s \<noteq> []"
  by (induction s) (auto split: list.splits)

lemma split_space_append:
  "split_space (a @ CHR '' '' # b) = split_space a @ split_space b"
proof (induction a)
  case Nil
  show ?case by simp
next
  case (Cons c a)
  obtain t ts where ts: "split_space a = t # ts"
    using split_space_not_Nil [of a] by (cases "split_space a") auto
  with Cons show ?case by simp
qed

lemma split_space_run:
  "split_space (a @ replicate (Suc k) (CHR '' '') @ b) =
     split_space a @ replicate k [] @ split_space b"
proof -
  have "a @ replicate (Suc k) (CHR '' '') @ b = a @ CHR '' '' # (replicate k (CHR '' '') @ b)"
    by simp
  also have "split_space \<dots> = split_space a @ split_space (replicate k (CHR '' '') @ b)"
    by (rule split_space_append)
  also have "split_space (replicate k (CHR '' '') @ b) = replicate k [] @ split_space b"
    by (induction k) auto
  finally show ?thesis .
qed

lemma join_split_space: "join_space (split_space s) = s"
proof (induction s)
  case Nil
  show ?case by simp
next
  case (Cons c s)
  obtain t ts where ts: "split_space s = t # ts"
    using split_space_not_Nil [of s] by (cases "split_space s") auto
  with Cons show ?case by (cases ts) auto
qed

lemma length_split_space:
  "length (split_space s) = Suc (length (filter (\<lambda>c. c = CHR '' '') s))"
  by (induction s) (auto split: list.splits simp: split_space_not_Nil)

lemma split_space_no_space: "t \<in> set (split_space s) \<Longrightarrow> CHR '' '' \<notin> set t"
  by (induction s arbitrary: t) (auto split: list.splits if_splits)

lemma build_config_publishArgs:
  "build_config env ev = Inr config \<Longrightarrow> publishArgs config = arrayEnv env ''PUBLISH_ARGS''"
  by (auto simp: build_config_def split: sum.splits)

text \<open>
  C10. \<open>arrayEnv\<close> gives the empty list when the variable is not set or is empty.
  Otherwise it cuts the value at every single space: joining the fields with single
  spaces gives the value back, there is one field more than the value has spaces, and no
  field contains a space. A run of \<open>k + 1\<close> spaces between \<open>a\<close> and \<open>b\<close> gives
  \<open>k\<close> empty strings between the fields of \<open>a\<close> and the fields of \<open>b\<close>. The
  configuration takes the fields of \<open>PUBLISH_ARGS\<close> as they are, and
  \<open>publishPackage\<close> puts them, unchanged, at the end of the command it runs.
\<close>

theorem publish_args_split:
  "((getEnv env nm = None \<or> getEnv env nm = Some []) \<longrightarrow> arrayEnv env nm = []) \<and>
   (\<forall>s. getEnv env nm = Some s \<and> s \<noteq> [] \<longrightarrow>
      arrayEnv env nm = split_space s \<and>
      join_space (arrayEnv env nm) = s \<and>
      length (arrayEnv env nm) = Suc (length (filter (\<lambda>c. c = CHR '' '') s)) \<and>
      (\<forall>t \<in> set (arrayEnv env nm). CHR '' '' \<notin> set t)) \<and>
   (\<forall>a b k. getEnv env nm = Some (a @ replicate (Suc k) (CHR '' '') @ b) \<longrightarrow>
      arrayEnv env nm = split_space a @ replicate k [] @ split_space b) \<and>
   (\<forall>ev config. build_config env ev = Inr config \<longrightarrow>
      publishArgs config = arrayEnv env ''PUBLISH_ARGS'' \<and>
      executed (snd (publishPackage P dir config version st)) =
        executed st @
          [(dir, publish_argv (config\<lparr>publishArgs := []\<rparr>) version @ arrayEnv env ''PUBLISH_ARGS'')])"
proof (intro conjI allI impI ballI)
  assume "getEnv env nm = None \<or> getEnv env nm = Some []"
  then show "arrayEnv env nm = []"
    by (auto simp: arrayEnv_def)
next
  fix s
  assume s: "getEnv env nm = Some s \<and> s \<noteq> []"
  then show a: "arrayEnv env nm = split_space s"
    by (simp add: arrayEnv_def)
  show "join_space (arrayEnv env nm) = s"
    by (simp add: a join_split_space)
  show "length (arrayEnv env nm) = Suc (length (filter (\<lambda>c. c = CHR '' '') s))"
    by (simp add: a length_split_space)
  fix t
  assume "t \<in> set (arrayEnv env nm)"
  then show "CHR '' '' \<notin> set t"
    using split_space_no_space [of t s] by (simp add: a)
next
  fix a b k
  assume "getEnv env nm = Some (a @ replicate (Suc k) (CHR '' '') @ b)"
  then have "arrayEnv env nm = split_space (a @ replicate (Suc k) (CHR '' '') @ b)"
    by (simp add: arrayEnv_def)
  then show "arrayEnv env nm = split_space a @ replicate k [] @ split_space b"
    by (simp only: split_space_run)
next
  fix ev config
  assume c: "build_config env ev = Inr config"
  then show p: "publishArgs config = arrayEnv env ''PUBLISH_ARGS''"
    by (rule build_config_publishArgs)
  show "executed (snd (publishPackage P dir config version st)) =
        executed st @
          [(dir, publish_argv (config\<lparr>publishArgs := []\<rparr>) version @ arrayEnv env ''PUBLISH_ARGS'')]"
    by (simp add: executed_publishPackage publish_argv_def p [symmetric])
qed

theorem publish_args_split_witness:
  "arrayEnv ((\<lambda>_. None)(''PUBLISH_ARGS'' \<mapsto> ''--access  public'')) ''PUBLISH_ARGS''
     = [''--access'', [], ''public''] \<and>
   arrayEnv (\<lambda>_. None) ''PUBLISH_ARGS'' = [] \<and>
   arrayEnv ((\<lambda>_. None)(''PUBLISH_ARGS'' \<mapsto> [])) ''PUBLISH_ARGS'' = []"
proof -
  let ?env = "(\<lambda>_. None)(''PUBLISH_ARGS'' \<mapsto> ''--access  public'')"
  have g: "getEnv ?env ''PUBLISH_ARGS'' = Some (''--access'' @ replicate (Suc 1) (CHR '' '') @ ''public'')"
    by (simp add: getEnv_def or_undef_def numeral_2_eq_2)
  have a: "arrayEnv ?env ''PUBLISH_ARGS'' = [''--access'', [], ''public'']"
    using publish_args_split [THEN conjunct2, THEN conjunct2, THEN conjunct1, rule_format, OF g]
    by simp
  have n: "getEnv (\<lambda>_. None) ''PUBLISH_ARGS'' = None \<or> getEnv (\<lambda>_. None) ''PUBLISH_ARGS'' = Some []"
    by (simp add: getEnv_def or_undef_def)
  have e: "getEnv ((\<lambda>_. None)(''PUBLISH_ARGS'' \<mapsto> [])) ''PUBLISH_ARGS'' = None \<or>
           getEnv ((\<lambda>_. None)(''PUBLISH_ARGS'' \<mapsto> [])) ''PUBLISH_ARGS'' = Some []"
    by (simp add: getEnv_def or_undef_def)
  from a publish_args_split [THEN conjunct1, THEN mp, OF n]
       publish_args_split [THEN conjunct1, THEN mp, OF e]
  show ?thesis by simp
qed

subsection \<open>Templates\<close>

lemma getSubstitution_no_dollar:
  "CHR ''$'' \<notin> set v \<Longrightarrow> getSubstitution m p f v = v"
  by (induction m p f v rule: getSubstitution.induct) auto

lemma replace_from_no_dollar:
  "CHR ''$'' \<notin> set v \<Longrightarrow> replace_from p t v = spec_substitute t v"
  by (induction p t v rule: replace_from.induct) (auto simp: getSubstitution_no_dollar)

lemma replace_placeholder_no_dollar:
  "CHR ''$'' \<notin> set v \<Longrightarrow> replace_placeholder t v = spec_substitute t v"
  by (simp add: replace_placeholder_def replace_from_no_dollar)

lemma placeholderEnv_rejects:
  "getEnv env nm = Some t \<Longrightarrow> t \<noteq> [] \<Longrightarrow> \<not> includes_str t ''%s'' \<Longrightarrow>
   placeholderEnv env nm d = Inl (Error (''missing placeholder in variable: '' @ nm))"
  by (simp add: placeholderEnv_def)

lemma placeholderEnv_Inl:
  "placeholderEnv env nm d = Inl e \<Longrightarrow> e = Error (''missing placeholder in variable: '' @ nm)"
  by (auto simp: placeholderEnv_def split: option.splits if_splits)

lemma build_config_rejects:
  assumes "getEnv env ''TAG_NAME'' = Some t \<or> getEnv env ''TAG_MESSAGE'' = Some t"
      and "t \<noteq> []" and "\<not> includes_str t ''%s''"
  shows "build_config env ev = Inl (Error ''missing placeholder in variable: TAG_NAME'') \<or>
         build_config env ev = Inl (Error ''missing placeholder in variable: TAG_MESSAGE'')"
proof (cases "placeholderEnv env ''TAG_NAME'' ''v%s''")
  case (Inl e)
  with placeholderEnv_Inl [OF Inl] show ?thesis
    by (simp add: build_config_def)
next
  case (Inr tn)
  with assms have "getEnv env ''TAG_MESSAGE'' = Some t"
    by (auto simp: placeholderEnv_def split: option.splits if_splits)
  from placeholderEnv_rejects [OF this assms(2,3), of "''v%s''"] Inr show ?thesis
    by (simp add: build_config_def)
qed

lemma main_rejects:
  assumes "readEventJson P (event_file env) = Inr ev" and "build_config env ev = Inl e"
  shows "main P env (init_state w) = (Inl e, (init_state w)\<lparr>filesRead := [event_file env]\<rparr>)"
  using assms by (simp add: main_def Let_def init_state_def)

lemma executed_createTag_Inr:
  assumes "fst (createTag P dir config version st) = Inr u"
  shows "executed (snd (createTag P dir config version st)) =
     executed st @
       [(dir, [''git'', ''rev-parse'', ''-q'', ''--verify'',
               ''refs/tags/'' @ replace_placeholder (tagName config) version]),
        (dir, [''git'', ''config'', ''user.name'', name (tagAuthor config)]),
        (dir, [''git'', ''config'', ''user.email'', email (tagAuthor config)]),
        (dir, [''git'', ''tag'', ''-a'', ''-m'', replace_placeholder (tagMessage config) version,
               replace_placeholder (tagName config) version]),
        (dir, [''git'', ''push'', ''origin'',
               ''refs/tags/'' @ replace_placeholder (tagName config) version])]"
  using assms
  by (auto simp: createTag_def Let_def and_then_eq snd_tag_probe executed_run console_log_def
        split: sum.splits if_splits)

text \<open>
  C6, as the code has it. For a version string without a dollar sign,
  \<open>replace(/%s/g, version)\<close> puts the version string in the place of every occurrence
  of \<open>%s\<close> in the template, and a \<open>createTag\<close> that succeeds has run its commands
  with the tag name and the tag message rendered so. \<open>placeholderEnv\<close> rejects a value
  that is set, not empty and without \<open>%s\<close>. When \<open>TAG_NAME\<close> or \<open>TAG_MESSAGE\<close> is
  such a value and the event document can be read, \<open>main\<close> fails with the error of
  \<open>placeholderEnv\<close> after it has read the event document and nothing else: the package
  document is not read, no command is run, nothing is printed.
\<close>

theorem template_rendering:
  "(CHR ''$'' \<notin> set version \<longrightarrow>
      replace_placeholder template version = spec_substitute template version \<and>
      (\<forall>u. fst (createTag P dir config version st) = Inr u \<longrightarrow>
         executed (snd (createTag P dir config version st)) =
           executed st @
             [(dir, [''git'', ''rev-parse'', ''-q'', ''--verify'',
                     ''refs/tags/'' @ spec_substitute (tagName config) version]),
              (dir, [''git'', ''config'', ''user.name'', name (tagAuthor config)]),
              (dir, [''git'', ''config'', ''user.email'', email (tagAuthor config)]),
              (dir, [''git'', ''tag'', ''-a'', ''-m'', spec_substitute (tagMessage config) version,
                     spec_substitute (tagName config) version]),
              (dir, [''git'', ''push'', ''origin'',
                     ''refs/tags/'' @ spec_substitute (tagName config) version])])) \<and>
   (\<forall>t. getEnv env nm = Some t \<and> t \<noteq> [] \<and> \<not> includes_str t ''%s'' \<longrightarrow>
      placeholderEnv env nm d = Inl (Error (''missing placeholder in variable: '' @ nm))) \<and>
   (\<forall>t ev. readEventJson P (event_file env) = Inr ev \<and>
           (getEnv env ''TAG_NAME'' = Some t \<or> getEnv env ''TAG_MESSAGE'' = Some t) \<and>
           t \<noteq> [] \<and> \<not> includes_str t ''%s'' \<longrightarrow>
      (main P env (init_state w) =
         (Inl (Error ''missing placeholder in variable: TAG_NAME''),
          (init_state w)\<lparr>filesRead := [event_file env]\<rparr>) \<or>
       main P env (init_state w) =
         (Inl (Error ''missing placeholder in variable: TAG_MESSAGE''),
          (init_state w)\<lparr>filesRead := [event_file env]\<rparr>)))"
proof (intro conjI allI impI)
  assume d: "CHR ''$'' \<notin> set version"
  then show "replace_placeholder template version = spec_substitute template version"
    by (rule replace_placeholder_no_dollar)
  fix u
  assume "fst (createTag P dir config version st) = Inr u"
  from executed_createTag_Inr [OF this]
  show "executed (snd (createTag P dir config version st)) =
           executed st @
             [(dir, [''git'', ''rev-parse'', ''-q'', ''--verify'',
                     ''refs/tags/'' @ spec_substitute (tagName config) version]),
              (dir, [''git'', ''config'', ''user.name'', name (tagAuthor config)]),
              (dir, [''git'', ''config'', ''user.email'', email (tagAuthor config)]),
              (dir, [''git'', ''tag'', ''-a'', ''-m'', spec_substitute (tagMessage config) version,
                     spec_substitute (tagName config) version]),
              (dir, [''git'', ''push'', ''origin'',
                     ''refs/tags/'' @ spec_substitute (tagName config) version])]"
    by (simp add: replace_placeholder_no_dollar [OF d])
next
  fix t
  assume "getEnv env nm = Some t \<and> t \<noteq> [] \<and> \<not> includes_str t ''%s''"
  then show "placeholderEnv env nm d = Inl (Error (''missing placeholder in variable: '' @ nm))"
    by (simp add: placeholderEnv_rejects)
next
  fix t ev
  assume h: "readEventJson P (event_file env) = Inr ev \<and>
           (getEnv env ''TAG_NAME'' = Some t \<or> getEnv env ''TAG_MESSAGE'' = Some t) \<and>
           t \<noteq> [] \<and> \<not> includes_str t ''%s''"
  then have "build_config env ev = Inl (Error ''missing placeholder in variable: TAG_NAME'') \<or>
             build_config env ev = Inl (Error ''missing placeholder in variable: TAG_MESSAGE'')"
    using build_config_rejects [of env t ev] by blast
  with h show "main P env (init_state w) =
         (Inl (Error ''missing placeholder in variable: TAG_NAME''),
          (init_state w)\<lparr>filesRead := [event_file env]\<rparr>) \<or>
       main P env (init_state w) =
         (Inl (Error ''missing placeholder in variable: TAG_MESSAGE''),
          (init_state w)\<lparr>filesRead := [event_file env]\<rparr>)"
    using main_rejects [of P env ev _ w] by blast
qed

theorem template_rendering_witness:
  "replace_placeholder ''release-%s/%s'' ''1.2.0'' = ''release-1.2.0/1.2.0'' \<and>
   placeholderEnv ((\<lambda>_. None)(''TAG_NAME'' \<mapsto> ''release'')) ''TAG_NAME'' ''v%s''
     = Inl (Error ''missing placeholder in variable: TAG_NAME'') \<and>
   main test_platform ((\<lambda>_. None)(''TAG_MESSAGE'' \<mapsto> ''release'')) (init_state [])
     = (Inl (Error ''missing placeholder in variable: TAG_MESSAGE''),
        \<lparr>world = [], executed = [], filesRead = [''/github/workflow/event.json''],
         console = [], exitCode = None\<rparr>)"
proof -
  have d: "CHR ''$'' \<notin> set ''1.2.0''"
    by simp
  have a: "replace_placeholder ''release-%s/%s'' ''1.2.0'' = ''release-1.2.0/1.2.0''"
    using template_rendering [THEN conjunct1, THEN mp, OF d, THEN conjunct1, of "''release-%s/%s''"]
    by simp
  let ?env1 = "(\<lambda>_. None)(''TAG_NAME'' \<mapsto> ''release'')"
  have g1: "getEnv ?env1 ''TAG_NAME'' = Some ''release'' \<and> ''release'' \<noteq> [] \<and>
            \<not> includes_str ''release'' ''%s''"
    by (simp add: getEnv_def or_undef_def)
  have b: "placeholderEnv ?env1 ''TAG_NAME'' ''v%s'' = Inl (Error ''missing placeholder in variable: TAG_NAME'')"
    using template_rendering [THEN conjunct2, THEN conjunct1, rule_format, OF g1] by simp
  let ?env2 = "(\<lambda>_. None)(''TAG_MESSAGE'' \<mapsto> ''release'')"
  have g2: "readEventJson test_platform (event_file ?env2) = Inr test_event \<and>
            (getEnv ?env2 ''TAG_NAME'' = Some ''release'' \<or> getEnv ?env2 ''TAG_MESSAGE'' = Some ''release'') \<and>
            ''release'' \<noteq> [] \<and> \<not> includes_str ''release'' ''%s''"
    by (simp add: getEnv_def or_undef_def test_platform_def event_file_def or_default_def)
  have c: "main test_platform ?env2 (init_state [])
     = (Inl (Error ''missing placeholder in variable: TAG_MESSAGE''),
        \<lparr>world = [], executed = [], filesRead = [''/github/workflow/event.json''],
         console = [], exitCode = None\<rparr>)"
    using template_rendering [THEN conjunct2, THEN conjunct2, rule_format, OF g2, of "[]"]
    by (auto simp: model_defs test_defs)
  from a b c show ?thesis by simp
qed

text \<open>
  C6 as stated fails twice. A version string with \<open>$&\<close> is not put in the place of
  the placeholder as it is: \<open>$&\<close> becomes the placeholder again. And the rejection of
  a template comes after the read of the event document: the file has been read when
  \<open>TAG_NAME\<close> is rejected, and when the event document cannot be read the run fails
  with the error of the read and the template is never looked at.
\<close>

theorem template_rendering_counterexample:
  "replace_placeholder ''v%s'' ''1.2.0-$&'' = ''v1.2.0-%s'' \<and>
   spec_substitute ''v%s'' ''1.2.0-$&'' = ''v1.2.0-$&'' \<and>
   main test_platform ((\<lambda>_. None)(''TAG_NAME'' \<mapsto> ''release'')) (init_state [])
     = (Inl (Error ''missing placeholder in variable: TAG_NAME''),
        \<lparr>world = [], executed = [], filesRead = [''/github/workflow/event.json''],
         console = [], exitCode = None\<rparr>) \<and>
   fst (main (test_platform\<lparr>readEventJson := \<lambda>f. Inl ''ENOENT: no such file or directory''\<rparr>)
          ((\<lambda>_. None)(''TAG_NAME'' \<mapsto> ''release'')) (init_state []))
     = Inl (Error ''ENOENT: no such file or directory'')"
  by (simp add: model_defs test_defs)

end
